theory Spec2Isabelle
  imports Main
begin

section \<open>Values, errors and the Python built-ins that app.py relies on\<close>

text \<open>
  The handlers of app.py work on parsed JSON. A JSON object is an association list in
  insertion order, as a Python dict is; a parsed object has distinct keys. JSON numbers
  are modelled as integers (a non-integer number is outside this model).
\<close>

datatype json =
    JNull
  | JBool bool
  | JNum int
  | JStr string
  | JArr "json list"
  | JObj "(string \<times> json) list"

type_synonym dict = "(string \<times> json) list"

text \<open>
  Exceptions are values. \<open>RequestException\<close> carries the text that \<open>str(e)\<close> gives.
  \<open>OtherError\<close> is any exception that is not a \<open>requests.RequestException\<close>.
  \<open>NotModelled\<close> marks an input of a library function that this development does not
  describe (see \<open>fromisoformat\<close>).
\<close>

datatype py_error =
    AttributeError
  | TypeError
  | KeyError
  | ValueError
  | RequestException string
  | OtherError string
  | NotModelled

text \<open>Python truthiness, as used by \<open>not recipients\<close> and \<open>not template_name\<close>.\<close>

fun truthy :: "json \<Rightarrow> bool" where
  "truthy JNull = False"
| "truthy (JBool b) = b"
| "truthy (JNum n) = (n \<noteq> 0)"
| "truthy (JStr s) = (s \<noteq> [])"
| "truthy (JArr xs) = (xs \<noteq> [])"
| "truthy (JObj d) = (d \<noteq> [])"

text \<open>\<open>d.get(k, default)\<close> and \<open>d[k] = v\<close> on a dict.\<close>

definition dict_get :: "dict \<Rightarrow> string \<Rightarrow> json \<Rightarrow> json" where
  "dict_get d k dflt = (case map_of d k of None \<Rightarrow> dflt | Some v \<Rightarrow> v)"

fun dict_set :: "string \<Rightarrow> json \<Rightarrow> dict \<Rightarrow> dict" where
  "dict_set k v [] = [(k, v)]"
| "dict_set k v (p # ps) = (if fst p = k then (k, v) # ps else p # dict_set k v ps)"

text \<open>
  \<open>x.get(k, default)\<close> on an arbitrary parsed value: only a dict has the attribute.
\<close>

fun py_get :: "json \<Rightarrow> string \<Rightarrow> json \<Rightarrow> py_error + json" where
  "py_get (JObj d) k dflt = Inr (dict_get d k dflt)"
| "py_get _ k dflt = Inl AttributeError"

text \<open>
  \<open>s.split(',')\<close> for a one-character separator: the pieces between the separators,
  so the empty string gives one empty piece.
\<close>

fun split :: "char \<Rightarrow> string \<Rightarrow> string list" where
  "split c [] = [[]]"
| "split c (x # xs) =
     (if x = c then [] # split c xs
      else (case split c xs of [] \<Rightarrow> [[x]] | w # ws \<Rightarrow> (x # w) # ws))"

fun py_split :: "json \<Rightarrow> py_error + string list" where
  "py_split (JStr s) = Inr (split CHR '','' s)"
| "py_split _ = Inl AttributeError"

text \<open>
  Iteration, as \<open>enumerate(recipients)\<close> does it: the elements of a list, the
  one-character strings of a string, the keys of a dict; anything else is not iterable.
\<close>

fun py_iter :: "json \<Rightarrow> py_error + json list" where
  "py_iter (JArr xs) = Inr xs"
| "py_iter (JStr s) = Inr (map (\<lambda>c. JStr [c]) s)"
| "py_iter (JObj d) = Inr (map (\<lambda>p. JStr (fst p)) d)"
| "py_iter _ = Inl TypeError"

text \<open>Decimal rendering of integers, as \<open>str\<close> and f-strings give it.\<close>

definition digit_char :: "nat \<Rightarrow> char" where
  "digit_char d = ''0123456789'' ! d"

fun str_of_nat :: "nat \<Rightarrow> string" where
  "str_of_nat n =
     (if n < 10 then [digit_char n] else str_of_nat (n div 10) @ [digit_char (n mod 10)])"

declare str_of_nat.simps [simp del]

definition str_of_int :: "int \<Rightarrow> string" where
  "str_of_int i = (if i < 0 then CHR ''-'' # str_of_nat (nat (- i)) else str_of_nat (nat i))"

text \<open>\<open>str\<close> of an optional string such as the result of \<open>os.getenv\<close>.\<close>

fun str_of_opt :: "string option \<Rightarrow> string" where
  "str_of_opt None = ''None''"
| "str_of_opt (Some s) = s"

fun json_of_opt :: "string option \<Rightarrow> json" where
  "json_of_opt None = JNull"
| "json_of_opt (Some s) = JStr s"

section \<open>The environment: configuration and the upstream provider\<close>

text \<open>
  \<open>API_KEY\<close> and \<open>ACCESS_TOKEN\<close> come from \<open>os.getenv\<close>, so each may be unset.
  \<open>utc_offset\<close> is the offset of the server's local time zone in seconds east of UTC
  (the zone is taken to have a fixed offset). \<open>py_repr\<close> is Python's rendering of lists
  and dicts as text, a built-in that is not part of the repository.
\<close>

record config =
  API_KEY :: "string option"
  ACCESS_TOKEN :: "string option"
  utc_offset :: int
  py_repr :: "json \<Rightarrow> string"

text \<open>
  An outbound call of the \<open>requests\<close> library: \<open>requests.get(url, headers, params)\<close> or
  \<open>requests.post(url, json, headers)\<close>.
\<close>

datatype http_call =
    Get string "(string \<times> string) list" "(string \<times> json) list"
  | Post string json "(string \<times> string) list"

text \<open>
  What the library hands back: \<open>status_code\<close>, \<open>text\<close>, and what \<open>response.json()\<close>
  does (it returns the parsed body or raises).
\<close>

record response =
  status_code :: nat
  body_text :: string
  body_json :: "py_error + json"

text \<open>\<open>response.ok\<close>: no 4xx and no 5xx status.\<close>

definition ok :: "response \<Rightarrow> bool" where
  "ok r = (\<not> (400 \<le> status_code r \<and> status_code r < 600))"

text \<open>
  The provider answers the k-th outbound call of a request either with a response or by
  raising.
\<close>

type_synonym upstream = "nat \<Rightarrow> http_call \<Rightarrow> py_error + response"

text \<open>
  What a handler does: the outbound calls it issued, in order, what it printed, and
  either the exception it let escape or the pair of JSON body and HTTP status that it
  returned.
\<close>

record outcome =
  calls :: "http_call list"
  printed :: "(json \<times> json) list"
  result :: "py_error + (json \<times> nat)"

section \<open>POST /send\<close>

definition WHATSAPP_API_URL :: string where
  "WHATSAPP_API_URL = ''https://graph.facebook.com/v17.0/139913512540275/messages''"

text \<open>The key \<open>f'user{i+1}'\<close>.\<close>

definition user_key :: "nat \<Rightarrow> string" where
  "user_key i = ''user'' @ str_of_nat (i + 1)"

text \<open>
  Lines 84-85: \<open>if i < len(variable_names): template_variables[f'user{i+1}'] =
  variable_names[i]\<close>.
\<close>

definition bind_user :: "string list \<Rightarrow> nat \<Rightarrow> dict \<Rightarrow> dict" where
  "bind_user variable_names i template_variables =
     (if i < length variable_names
      then dict_set (user_key i) (JStr (variable_names ! i)) template_variables
      else template_variables)"

text \<open>Lines 87-117: the payload for one recipient.\<close>

definition payload :: "json \<Rightarrow> json \<Rightarrow> nat \<Rightarrow> dict \<Rightarrow> json" where
  "payload recipient template_name i template_variables =
     JObj [
       (''messaging_product'', JStr ''whatsapp''),
       (''recipient_type'', JStr ''individual''),
       (''to'', recipient),
       (''type'', JStr ''template''),
       (''template'', JObj [
          (''name'', template_name),
          (''language'', JObj [(''code'', JStr ''en_US'')]),
          (''components'', JArr [
             JObj [
               (''type'', JStr ''body''),
               (''parameters'', JArr [
                  JObj [(''type'', JStr ''text''),
                        (''text'', dict_get template_variables (user_key i) (JStr ''''))],
                  JObj [(''type'', JStr ''text''),
                        (''text'', dict_get template_variables ''variable2'' (JStr ''''))],
                  JObj [(''type'', JStr ''text''),
                        (''text'', dict_get template_variables ''variable3'' (JStr ''''))]
               ])
             ]
          ])
       ])
     ]"

definition send_headers :: "config \<Rightarrow> (string \<times> string) list" where
  "send_headers cfg =
     [(''Authorization'', ''Bearer '' @ str_of_opt (API_KEY cfg)),
      (''Content-Type'', ''application/json'')]"

text \<open>
  Lines 83-129, the loop over \<open>enumerate(recipients)\<close>. The arguments after the
  recipients still to process are the position \<open>i\<close>, the dict \<open>template_variables\<close>
  (which the loop mutates), and the calls and prints so far. An exception raised by
  \<open>requests.post\<close> or by \<open>response.json()\<close> is not caught: it leaves the loop.
\<close>

fun send_loop ::
  "upstream \<Rightarrow> config \<Rightarrow> json \<Rightarrow> string list \<Rightarrow> json list \<Rightarrow> nat \<Rightarrow> dict \<Rightarrow>
   http_call list \<Rightarrow> (json \<times> json) list \<Rightarrow> outcome" where
  "send_loop up cfg template_name variable_names [] i template_variables cs ps =
     \<lparr>calls = cs, printed = ps,
      result = Inr (JObj [(''message'', JStr ''Messages sent successfully!'')], 200)\<rparr>"
| "send_loop up cfg template_name variable_names (recipient # rest) i template_variables cs ps =
     (let tv = bind_user variable_names i template_variables;
          c = Post WHATSAPP_API_URL (payload recipient template_name i tv) (send_headers cfg)
      in case up (length cs) c of
           Inl e \<Rightarrow> \<lparr>calls = cs @ [c], printed = ps, result = Inl e\<rparr>
         | Inr response \<Rightarrow>
             (case body_json response of
                Inl e \<Rightarrow> \<lparr>calls = cs @ [c], printed = ps, result = Inl e\<rparr>
              | Inr response_data \<Rightarrow>
                  send_loop up cfg template_name variable_names rest (i + 1) tv
                    (cs @ [c]) (ps @ [(recipient, response_data)])))"

text \<open>An exception before any outbound call.\<close>

definition raised :: "py_error \<Rightarrow> outcome" where
  "raised e = \<lparr>calls = [], printed = [], result = Inl e\<rparr>"

text \<open>
  \<open>send_message\<close>, lines 74-131, on the parsed request body \<open>message_data\<close>.
\<close>

definition send_message :: "upstream \<Rightarrow> config \<Rightarrow> json \<Rightarrow> outcome" where
  "send_message up cfg message_data =
     (case py_get message_data ''recipients'' JNull of
        Inl e \<Rightarrow> raised e
      | Inr recipients \<Rightarrow>
     (case py_get message_data ''template_name'' JNull of
        Inl e \<Rightarrow> raised e
      | Inr template_name \<Rightarrow>
     (case py_get message_data ''template_variables'' (JObj []) of
        Inl e \<Rightarrow> raised e
      | Inr template_variables \<Rightarrow>
     if \<not> truthy recipients \<or> \<not> truthy template_name
     then \<lparr>calls = [], printed = [],
           result = Inr (JObj [(''error'', JStr ''Missing required parameters'')], 400)\<rparr>
     else
     (case py_get template_variables ''variable1'' (JStr '''') of
        Inl e \<Rightarrow> raised e
      | Inr variable1 \<Rightarrow>
     (case py_split variable1 of
        Inl e \<Rightarrow> raised e
      | Inr variable_names \<Rightarrow>
     (case py_iter recipients of
        Inl e \<Rightarrow> raised e
      | Inr rs \<Rightarrow>
     (case template_variables of
        JObj tv \<Rightarrow> send_loop up cfg template_name variable_names rs 0 tv [] []
      | _ \<Rightarrow> raised AttributeError)))))))"

section \<open>Timestamps\<close>

text \<open>
  \<open>iso_to_unix\<close> is \<open>int(datetime.fromisoformat(iso_timestamp).timestamp())\<close>. The two
  library functions are described here as far as the handlers need them. A naive
  date-time is a calendar date and a time of day.
\<close>

record datetime =
  year :: nat
  month :: nat
  day :: nat
  hour :: nat
  minute :: nat
  second :: nat

definition is_digit :: "char \<Rightarrow> bool" where
  "is_digit c = (c \<in> set ''0123456789'')"

definition digit_val :: "char \<Rightarrow> nat" where
  "digit_val c = of_char c - 48"

text \<open>The value of a string of decimal digits, most significant digit first.\<close>

definition digits_val :: "string \<Rightarrow> nat" where
  "digits_val s = foldl (\<lambda>n c. 10 * n + digit_val c) 0 s"

definition is_leap :: "nat \<Rightarrow> bool" where
  "is_leap y = (y mod 4 = 0 \<and> (y mod 100 \<noteq> 0 \<or> y mod 400 = 0))"

definition days_in_month :: "nat \<Rightarrow> nat \<Rightarrow> nat" where
  "days_in_month y m =
     (if m = 2 \<and> is_leap y then 29 else [0, 31, 28, 31, 30, 31, 30, 31, 31, 30, 31, 30, 31] ! m)"

definition days_before_year :: "nat \<Rightarrow> nat" where
  "days_before_year y = (y - 1) * 365 + (y - 1) div 4 - (y - 1) div 100 + (y - 1) div 400"

definition days_before_month :: "nat \<Rightarrow> nat \<Rightarrow> nat" where
  "days_before_month y m =
     [0, 0, 31, 59, 90, 120, 151, 181, 212, 243, 273, 304, 334] ! m
       + (if m > 2 \<and> is_leap y then 1 else 0)"

text \<open>The proleptic Gregorian ordinal of a date; 1 January of year 1 is day 1.\<close>

definition ymd2ord :: "nat \<Rightarrow> nat \<Rightarrow> nat \<Rightarrow> nat" where
  "ymd2ord y m d = days_before_year y + days_before_month y m + d"

text \<open>
  \<open>datetime.fromisoformat\<close> on the shapes \<open>YYYY-MM-DD\<close>, \<open>YYYY-MM-DD*HH\<close>,
  \<open>YYYY-MM-DD*HH:MM\<close> and \<open>YYYY-MM-DD*HH:MM:SS\<close> (\<open>*\<close> is any one character), which
  every version of the library reads the same way: a field out of range is a
  \<open>ValueError\<close>. Any other string (fractional seconds, an UTC offset, week dates,
  text that is no timestamp) is \<open>NotModelled\<close>.
\<close>

definition all_digits :: "string \<Rightarrow> bool" where
  "all_digits s = list_all is_digit s"

definition date_shape :: "string \<Rightarrow> bool" where
  "date_shape s =
     (length s = 10 \<and> all_digits (take 4 s) \<and> s ! 4 = CHR ''-'' \<and>
      all_digits (take 2 (drop 5 s)) \<and> s ! 7 = CHR ''-'' \<and> all_digits (drop 8 s))"

definition time_shape :: "string \<Rightarrow> bool" where
  "time_shape s =
     (if length s = 2 then all_digits s
      else if length s = 5 then all_digits (take 2 s) \<and> s ! 2 = CHR '':'' \<and> all_digits (drop 3 s)
      else if length s = 8 then
        all_digits (take 2 s) \<and> s ! 2 = CHR '':'' \<and> all_digits (take 2 (drop 3 s)) \<and>
        s ! 5 = CHR '':'' \<and> all_digits (drop 6 s)
      else False)"

definition fromisoformat :: "string \<Rightarrow> py_error + datetime" where
  "fromisoformat s =
     (if date_shape (take 10 s) \<and> (length s = 10 \<or> (length s > 11 \<and> time_shape (drop 11 s)))
      then
        (let y = digits_val (take 4 s);
             m = digits_val (take 2 (drop 5 s));
             d = digits_val (take 2 (drop 8 s));
             hh = digits_val (take 2 (drop 11 s));
             mm = digits_val (take 2 (drop 14 s));
             ss = digits_val (take 2 (drop 17 s))
         in if 1 \<le> y \<and> 1 \<le> m \<and> m \<le> 12 \<and> 1 \<le> d \<and> d \<le> days_in_month y m \<and>
               hh < 24 \<and> mm < 60 \<and> ss < 60
            then Inr \<lparr>year = y, month = m, day = d, hour = hh, minute = mm, second = ss\<rparr>
            else Inl ValueError)
      else Inl NotModelled)"

text \<open>
  \<open>timestamp()\<close> of a naive date-time reads it as local time: the seconds from
  1970-01-01T00:00:00 to it on the calendar, less the offset of the local zone.
  1970-01-01 is ordinal 719163. The value has no fraction, since no fraction of a second
  is read, so \<open>int\<close> leaves it as it is. Limits that a platform puts on the range of
  its clock are not described.
\<close>

definition timestamp :: "int \<Rightarrow> datetime \<Rightarrow> int" where
  "timestamp off dt =
     (int (ymd2ord (year dt) (month dt) (day dt)) - 719163) * 86400
       + int (hour dt) * 3600 + int (minute dt) * 60 + int (second dt) - off"

text \<open>Lines 20-21. The argument is whatever the request body holds under the key.\<close>

fun iso_to_unix :: "config \<Rightarrow> json \<Rightarrow> py_error + int" where
  "iso_to_unix cfg (JStr iso_timestamp) =
     (case fromisoformat iso_timestamp of
        Inl e \<Rightarrow> Inl e
      | Inr dt \<Rightarrow> Inr (timestamp (utc_offset cfg) dt))"
| "iso_to_unix cfg _ = Inl TypeError"

text \<open>
  The way back, \<open>datetime.fromtimestamp\<close>: the local calendar date and time of an epoch
  value. \<open>ord2ymd\<close> inverts \<open>ymd2ord\<close> as the library does, by the 400-, 100-, 4- and
  1-year cycles.
\<close>

definition ord2ymd :: "nat \<Rightarrow> nat \<times> nat \<times> nat" where
  "ord2ymd n0 =
     (let n = n0 - 1;
          n400 = n div 146097; n = n mod 146097;
          n100 = n div 36524; n = n mod 36524;
          n4 = n div 1461; n = n mod 1461;
          n1 = n div 365; n = n mod 365;
          y = n400 * 400 + 1 + n100 * 100 + n4 * 4 + n1
      in if n1 = 4 \<or> n100 = 4 then (y - 1, 12, 31)
         else
           (let leapyear = (n1 = 3 \<and> (n4 \<noteq> 24 \<or> n100 = 3));
                m = (n + 50) div 32;
                preceding = [0, 0, 31, 59, 90, 120, 151, 181, 212, 243, 273, 304, 334] ! m
                              + (if m > 2 \<and> leapyear then 1 else 0)
            in if preceding > n
               then (y, m - 1,
                     n - (preceding
                          - ([0, 31, 28, 31, 30, 31, 30, 31, 31, 30, 31, 30, 31] ! (m - 1)
                             + (if m - 1 = 2 \<and> leapyear then 1 else 0))) + 1)
               else (y, m, n - preceding + 1)))"

definition fromtimestamp :: "int \<Rightarrow> int \<Rightarrow> datetime" where
  "fromtimestamp off t =
     (let local = t + off;
          days = local div 86400;
          secs = nat (local mod 86400);
          ymd = ord2ymd (nat (days + 719163))
      in \<lparr>year = fst ymd, month = fst (snd ymd), day = snd (snd ymd),
          hour = secs div 3600, minute = (secs mod 3600) div 60, second = secs mod 60\<rparr>)"

text \<open>
  The calendar counted out directly, as a reference for what the correct epoch value of
  a date-time on or after 1970 is: whole years, then whole months, then days.
\<close>

definition days_in_year :: "nat \<Rightarrow> nat" where
  "days_in_year y = (if is_leap y then 366 else 365)"

definition epoch_seconds_reference :: "datetime \<Rightarrow> int" where
  "epoch_seconds_reference dt =
     (int (sum_list (map days_in_year [1970 ..< year dt])
           + sum_list (map (days_in_month (year dt)) [1 ..< month dt])
           + (day dt - 1))) * 86400
       + int (hour dt) * 3600 + int (minute dt) * 60 + int (second dt)"

section \<open>The analytics endpoints\<close>

text \<open>
  \<open>k in data\<close>: a key of a dict, an element of a list, a substring of a string; any other
  value raises.
\<close>

fun starts_with :: "string \<Rightarrow> string \<Rightarrow> bool" where
  "starts_with [] s = True"
| "starts_with (p # ps) [] = False"
| "starts_with (p # ps) (c # cs) = (p = c \<and> starts_with ps cs)"

fun contains :: "string \<Rightarrow> string \<Rightarrow> bool" where
  "contains sub [] = (sub = [])"
| "contains sub (c # cs) = (starts_with sub (c # cs) \<or> contains sub cs)"

fun py_in :: "string \<Rightarrow> json \<Rightarrow> py_error + bool" where
  "py_in k (JObj d) = Inr (k \<in> set (map fst d))"
| "py_in k (JArr xs) = Inr (JStr k \<in> set xs)"
| "py_in k (JStr s) = Inr (contains k s)"
| "py_in k _ = Inl TypeError"

text \<open>\<open>data[k]\<close> for a string \<open>k\<close>: only a dict can be indexed by a string.\<close>

fun py_getitem :: "json \<Rightarrow> string \<Rightarrow> py_error + json" where
  "py_getitem (JObj d) k = (case map_of d k of None \<Rightarrow> Inl KeyError | Some v \<Rightarrow> Inr v)"
| "py_getitem _ k = Inl TypeError"

text \<open>\<open>{x}\<close> in an f-string: \<open>str(x)\<close>.\<close>

fun py_str :: "config \<Rightarrow> json \<Rightarrow> string" where
  "py_str cfg (JStr s) = s"
| "py_str cfg JNull = ''None''"
| "py_str cfg (JBool b) = (if b then ''True'' else ''False'')"
| "py_str cfg (JNum n) = str_of_int n"
| "py_str cfg j = py_repr cfg j"

text \<open>Sequencing: an exception ends the handler before its first outbound call.\<close>

definition attempt :: "py_error + 'a \<Rightarrow> ('a \<Rightarrow> outcome) \<Rightarrow> outcome" where
  "attempt x f = (case x of Inl e \<Rightarrow> raised e | Inr v \<Rightarrow> f v)"

text \<open>
  \<open>A in data and B in data ...\<close>: the tests run from the left and stop at the first that
  is false.
\<close>

fun all_in :: "string list \<Rightarrow> json \<Rightarrow> py_error + bool" where
  "all_in [] data = Inr True"
| "all_in (k # ks) data =
     (case py_in k data of
        Inl e \<Rightarrow> Inl e
      | Inr b \<Rightarrow> if b then all_in ks data else Inr False)"

text \<open>
  The last five lines of each analytics handler: one \<open>requests.get\<close>, then the parsed
  body with status 200 when \<open>response.ok\<close>, else the body text in an error envelope with
  the status of the upstream response.
\<close>

definition relay :: "upstream \<Rightarrow> http_call \<Rightarrow> outcome" where
  "relay up c =
     (case up 0 c of
        Inl e \<Rightarrow> \<lparr>calls = [c], printed = [], result = Inl e\<rparr>
      | Inr response \<Rightarrow>
          if ok response
          then (case body_json response of
                  Inl e \<Rightarrow> \<lparr>calls = [c], printed = [], result = Inl e\<rparr>
                | Inr j \<Rightarrow> \<lparr>calls = [c], printed = [], result = Inr (j, 200)\<rparr>)
          else \<lparr>calls = [c], printed = [],
                result = Inr (JObj [(''error'', JStr (body_text response))],
                              status_code response)\<rparr>)"

definition bad_request :: "string \<Rightarrow> outcome" where
  "bad_request msg =
     \<lparr>calls = [], printed = [], result = Inr (JObj [(''error'', JStr msg)], 400)\<rparr>"

text \<open>Lines 167-184.\<close>

definition get_conversation_analytics :: "upstream \<Rightarrow> config \<Rightarrow> json \<Rightarrow> outcome" where
  "get_conversation_analytics up cfg data =
     attempt (all_in [''start_date'', ''end_date''] data) (\<lambda>present.
     if present then
       attempt (py_getitem data ''start_date'') (\<lambda>sd.
       attempt (iso_to_unix cfg sd) (\<lambda>start_unix.
       attempt (py_getitem data ''end_date'') (\<lambda>ed.
       attempt (iso_to_unix cfg ed) (\<lambda>end_unix.
       attempt (py_get data ''granularity'' (JStr ''MONTHLY'')) (\<lambda>granularity.
       relay up
         (Get ''https://graph.facebook.com/v18.0/118254494612532'' []
            [(''fields'', JStr (''conversation_analytics.start('' @ str_of_int start_unix
                @ '').end('' @ str_of_int end_unix
                @ '').granularity('' @ py_str cfg granularity
                @ '').phone_numbers([]).dimensions(['' @ [CHR 0x27] @ ''CONVERSATION_CATEGORY''
                @ [CHR 0x27] @ '','' @ [CHR 0x27] @ ''CONVERSATION_TYPE'' @ [CHR 0x27] @ '',''
                @ [CHR 0x27] @ ''COUNTRY'' @ [CHR 0x27] @ '','' @ [CHR 0x27] @ ''PHONE''
                @ [CHR 0x27] @ ''])'')),
             (''access_token'', json_of_opt (ACCESS_TOKEN cfg))]))))))
     else bad_request
       ''Start date and end date are required in ISO format in the request body.'')"

text \<open>Lines 226-250.\<close>

definition get_template_analytics :: "upstream \<Rightarrow> config \<Rightarrow> json \<Rightarrow> outcome" where
  "get_template_analytics up cfg data =
     attempt (all_in [''start_date'', ''end_date'', ''template_ids''] data) (\<lambda>present.
     if present then
       attempt (py_getitem data ''start_date'') (\<lambda>sd.
       attempt (iso_to_unix cfg sd) (\<lambda>start_unix.
       attempt (py_getitem data ''end_date'') (\<lambda>ed.
       attempt (iso_to_unix cfg ed) (\<lambda>end_unix.
       attempt (py_get data ''granularity'' JNull) (\<lambda>granularity.
       attempt (py_getitem data ''template_ids'') (\<lambda>template_ids.
       relay up
         (Get ''https://graph.facebook.com/v18.0/118254494612532/template_analytics''
            [(''Authorization'', ''Bearer '' @ str_of_opt (ACCESS_TOKEN cfg))]
            [(''start'', JNum start_unix),
             (''end'', JNum end_unix),
             (''granularity'', granularity),
             (''metric_types'', JStr (''['' @ [CHR 0x27] @ ''SENT'' @ [CHR 0x27] @ '',''
                @ [CHR 0x27] @ ''DELIVERED'' @ [CHR 0x27] @ '','' @ [CHR 0x27] @ ''READ''
                @ [CHR 0x27] @ '','' @ [CHR 0x27] @ ''CLICKED'' @ [CHR 0x27] @ '']'')),
             (''template_ids'', template_ids)])))))))
     else bad_request
       ''Start date, end date, and template IDs are required in the request body.'')"

text \<open>Lines 288-306.\<close>

definition get_messaging_analytics :: "upstream \<Rightarrow> config \<Rightarrow> json \<Rightarrow> outcome" where
  "get_messaging_analytics up cfg data =
     attempt (all_in [''start_date'', ''end_date''] data) (\<lambda>present.
     if present then
       attempt (py_getitem data ''start_date'') (\<lambda>sd.
       attempt (iso_to_unix cfg sd) (\<lambda>start_unix.
       attempt (py_getitem data ''end_date'') (\<lambda>ed.
       attempt (iso_to_unix cfg ed) (\<lambda>end_unix.
       attempt (py_get data ''granularity'' JNull) (\<lambda>granularity.
       relay up
         (Get ''https://graph.facebook.com/v18.0/118254494612532'' []
            [(''fields'', JStr (''analytics.start('' @ str_of_int start_unix
                @ '').end('' @ str_of_int end_unix
                @ '').granularity('' @ py_str cfg granularity @ '')'')),
             (''access_token'', json_of_opt (ACCESS_TOKEN cfg))]))))))
     else bad_request
       ''Start date and end date are required in ISO format in the request body.'')"

section \<open>The GET endpoints\<close>

text \<open>
  \<open>make_request\<close>, lines 24-37: the parsed body when the status is exactly 200, else an
  error dict that quotes the status; a \<open>RequestException\<close> raised inside the \<open>try\<close>
  block, by \<open>requests.get\<close> or by \<open>response.json()\<close>, becomes an error dict too. Any
  other exception escapes. The first component is the call that was issued.
\<close>

definition request_exception :: "string \<Rightarrow> json" where
  "request_exception msg = JObj [(''error'', JStr (''Request Exception: '' @ msg))]"

definition make_request ::
  "upstream \<Rightarrow> string \<Rightarrow> (string \<times> string) list \<Rightarrow> (string \<times> json) list \<Rightarrow>
   http_call \<times> (py_error + json)" where
  "make_request up url headers params =
     (Get url headers params,
      (case up 0 (Get url headers params) of
         Inl (RequestException msg) \<Rightarrow> Inr (request_exception msg)
       | Inl e \<Rightarrow> Inl e
       | Inr response \<Rightarrow>
           if status_code response = 200
           then (case body_json response of
                   Inr j \<Rightarrow> Inr j
                 | Inl (RequestException msg) \<Rightarrow> Inr (request_exception msg)
                 | Inl e \<Rightarrow> Inl e)
           else Inr (JObj [(''error'',
                  JStr (''Request failed with status code: ''
                          @ str_of_nat (status_code response)))])))"

text \<open>\<open>return jsonify(result)\<close>: the body with the default status, 200.\<close>

definition jsonify_result :: "http_call \<times> (py_error + json) \<Rightarrow> outcome" where
  "jsonify_result cr =
     (case snd cr of
        Inl e \<Rightarrow> \<lparr>calls = [fst cr], printed = [], result = Inl e\<rparr>
      | Inr j \<Rightarrow> \<lparr>calls = [fst cr], printed = [], result = Inr (j, 200)\<rparr>)"

definition bearer :: "config \<Rightarrow> (string \<times> string) list" where
  "bearer cfg = [(''Authorization'', ''Bearer '' @ str_of_opt (ACCESS_TOKEN cfg))]"

definition message_templates_url :: string where
  "message_templates_url = ''https://graph.facebook.com/v18.0/118254494612532/message_templates''"

text \<open>Lines 308-329.\<close>

definition approved_template :: "upstream \<Rightarrow> config \<Rightarrow> outcome" where
  "approved_template up cfg =
     jsonify_result (make_request up message_templates_url (bearer cfg)
       [(''fields'', JStr ''name,status''), (''status'', JStr ''APPROVED'')])"

text \<open>Lines 331-352.\<close>

definition rejected_templates :: "upstream \<Rightarrow> config \<Rightarrow> outcome" where
  "rejected_templates up cfg =
     jsonify_result (make_request up message_templates_url (bearer cfg)
       [(''fields'', JStr ''name,status''), (''status'', JStr ''REJECTED'')])"

text \<open>Lines 354-375.\<close>

definition approved_template_contents :: "upstream \<Rightarrow> config \<Rightarrow> outcome" where
  "approved_template_contents up cfg =
     jsonify_result (make_request up message_templates_url (bearer cfg)
       [(''fields'', JStr ''name,status,components''), (''status'', JStr ''APPROVED'')])"

text \<open>Lines 377-399.\<close>

definition rejected_template_contents :: "upstream \<Rightarrow> config \<Rightarrow> outcome" where
  "rejected_template_contents up cfg =
     jsonify_result (make_request up message_templates_url (bearer cfg)
       [(''fields'', JStr ''name,status,components''), (''status'', JStr ''REJECTED'')])"

text \<open>Lines 401-418; \<open>params\<close> is left at its default, no parameters.\<close>

definition phone_number_status :: "upstream \<Rightarrow> config \<Rightarrow> outcome" where
  "phone_number_status up cfg =
     jsonify_result (make_request up ''https://graph.facebook.com/v18.0/139913512540275''
       (bearer cfg) [])"

section \<open>Notions used in the statements\<close>

text \<open>Reading a payload: the value under a key of an object, \<open>JNull\<close> when there is none.\<close>

definition field :: "string \<Rightarrow> json \<Rightarrow> json" where
  "field k j = (case j of JObj d \<Rightarrow> dict_get d k JNull | _ \<Rightarrow> JNull)"

text \<open>The \<open>text\<close> entries of \<open>template.components[0].parameters\<close> of a payload.\<close>

definition body_parameters :: "json \<Rightarrow> json list" where
  "body_parameters p =
     (case field ''components'' (field ''template'' p) of
        JArr (c # cs) \<Rightarrow>
          (case field ''parameters'' c of JArr ps \<Rightarrow> map (field ''text'') ps | _ \<Rightarrow> [])
      | _ \<Rightarrow> [])"

text \<open>
  What the first body parameter of the recipient at position \<open>i\<close> turns out to be, in terms
  of the request: the i-th name, or else whatever the caller put under \<open>user{i+1}\<close>.
\<close>

definition first_parameter :: "string list \<Rightarrow> dict \<Rightarrow> nat \<Rightarrow> json" where
  "first_parameter variable_names tv i =
     (if i < length variable_names then JStr (variable_names ! i)
      else dict_get tv (user_key i) (JStr ''''))"

text \<open>The calls of a loop that no exception cuts short, with the dict threaded through.\<close>

fun expected_calls :: "config \<Rightarrow> json \<Rightarrow> string list \<Rightarrow> json list \<Rightarrow> nat \<Rightarrow> dict \<Rightarrow> http_call list" where
  "expected_calls cfg tn names [] i tv = []"
| "expected_calls cfg tn names (r # rs) i tv =
     Post WHATSAPP_API_URL (payload r tn i (bind_user names i tv)) (send_headers cfg)
       # expected_calls cfg tn names rs (i + 1) (bind_user names i tv)"

text \<open>
  A provider that answers every call with a response whose body parses as JSON; the
  status of the response is not restricted.
\<close>

definition answers_json :: "upstream \<Rightarrow> bool" where
  "answers_json up = (\<forall>k c. \<exists>r j. up k c = Inr r \<and> body_json r = Inr j)"

text \<open>The payload of lines 87-117 as a function of its three body parameters.\<close>

definition message :: "json \<Rightarrow> json \<Rightarrow> json \<Rightarrow> json \<Rightarrow> json \<Rightarrow> json" where
  "message recipient template_name p1 p2 p3 =
     JObj [
       (''messaging_product'', JStr ''whatsapp''),
       (''recipient_type'', JStr ''individual''),
       (''to'', recipient),
       (''type'', JStr ''template''),
       (''template'', JObj [
          (''name'', template_name),
          (''language'', JObj [(''code'', JStr ''en_US'')]),
          (''components'', JArr [
             JObj [
               (''type'', JStr ''body''),
               (''parameters'', JArr [
                  JObj [(''type'', JStr ''text''), (''text'', p1)],
                  JObj [(''type'', JStr ''text''), (''text'', p2)],
                  JObj [(''type'', JStr ''text''), (''text'', p3)]
               ])
             ]
          ])
       ])
     ]"

text \<open>The payloads of the messages a handler posted, in order.\<close>

definition posted :: "outcome \<Rightarrow> json list" where
  "posted out = concat (map (\<lambda>c. case c of Post u p h \<Rightarrow> [p] | Get u h q \<Rightarrow> []) (calls out))"

section \<open>Concrete configurations, providers and requests\<close>

definition example_config :: config where
  "example_config =
     \<lparr>API_KEY = Some ''key'', ACCESS_TOKEN = Some ''token'', utc_offset = 0,
      py_repr = (\<lambda>j. '''')\<rparr>"

text \<open>A provider that accepts every call.\<close>

definition provider_200 :: upstream where
  "provider_200 k c =
     Inr \<lparr>status_code = 200, body_text = ''{}'', body_json = Inr (JObj [])\<rparr>"

text \<open>A provider that fails every call with status 500 and a JSON error body.\<close>

definition provider_500 :: upstream where
  "provider_500 k c =
     Inr \<lparr>status_code = 500, body_text = ''down'',
          body_json = Inr (JObj [(''error'', JStr ''down'')])\<rparr>"

text \<open>A provider that cannot be reached for the first call and accepts the later ones.\<close>

definition provider_first_raises :: upstream where
  "provider_first_raises k c =
     (if k = 0 then Inl (RequestException ''connection refused'') else provider_200 k c)"

text \<open>The request of the specification's example.\<close>

definition dict_ab :: dict where
  "dict_ab =
     [(''recipients'', JArr [JStr ''a'', JStr ''b'']),
      (''template_name'', JStr ''welcome''),
      (''template_variables'',
       JObj [(''variable1'', JStr ''X,Y''), (''variable2'', JStr ''V2''),
             (''variable3'', JStr ''V3'')])]"

text \<open>Two recipients, one name, and a key \<open>user2\<close> supplied by the caller.\<close>

definition dict_user2 :: dict where
  "dict_user2 =
     [(''recipients'', JArr [JStr ''a'', JStr ''b'']),
      (''template_name'', JStr ''welcome''),
      (''template_variables'', JObj [(''variable1'', JStr ''X''), (''user2'', JStr ''Z'')])]"

text \<open>
  What is observed of a posted payload: its addressee and its body parameters.
\<close>

definition observe :: "json \<Rightarrow> json \<times> json list" where
  "observe p = (field ''to'' p, body_parameters p)"

text \<open>
  The five GET endpoints.
\<close>

definition get_endpoints :: "(upstream \<Rightarrow> config \<Rightarrow> outcome) list" where
  "get_endpoints =
     [approved_template, rejected_templates, approved_template_contents,
      rejected_template_contents, phone_number_status]"

text \<open>
  The error dict of \<open>make_request\<close> for an upstream status other than 200.
\<close>

definition status_envelope :: "nat \<Rightarrow> json" where
  "status_envelope code =
     JObj [(''error'', JStr (''Request failed with status code: '' @ str_of_nat code))]"

text \<open>
  The address of the analytics calls.
\<close>

definition graph_url :: string where
  "graph_url = ''https://graph.facebook.com/v18.0/118254494612532''"

text \<open>
  A provider that answers every call with status 200 and a list of templates.
\<close>

definition provider_data :: upstream where
  "provider_data k c =
     Inr \<lparr>status_code = 200, body_text = ''data'',
          body_json = Inr (JObj [(''data'', JArr [JObj [(''name'', JStr ''welcome'')]])])\<rparr>"

text \<open>
  An analytics request with both dates and no granularity.
\<close>

definition dict_dates :: dict where
  "dict_dates =
     [(''start_date'', JStr ''2023-12-01T00:00:00''),
      (''end_date'', JStr ''2023-12-01T00:00:00'')]"

text \<open>
  The k-th call was answered: the provider returned a response, and the body of the
  response parses as JSON. This is when the loop of /send goes on to the next recipient.
\<close>

definition answered :: "upstream \<Rightarrow> nat \<Rightarrow> http_call \<Rightarrow> bool" where
  "answered up k c =
     (case up k c of
        Inl e \<Rightarrow> False
      | Inr response \<Rightarrow> (case body_json response of Inl e \<Rightarrow> False | Inr j \<Rightarrow> True))"

section \<open>Decimal rendering and dicts\<close>

lemma str_of_nat_ne: "str_of_nat n \<noteq> []"
  by (subst str_of_nat.simps) simp

lemma digit_inj: "a < 10 \<Longrightarrow> b < 10 \<Longrightarrow> digit_char a = digit_char b \<Longrightarrow> a = b"
proof -
  assume a: "a < 10" and b: "b < 10" and e: "digit_char a = digit_char b"
  have d: "distinct ''0123456789''" by simp
  have l: "length ''0123456789'' = 10" by simp
  from a b l have "a < length ''0123456789''" "b < length ''0123456789''" by simp_all
  with e d show ?thesis
    unfolding digit_char_def by (simp only: nth_eq_iff_index_eq)
qed

lemma str_small: "n < 10 \<Longrightarrow> str_of_nat n = [digit_char n]"
  by (subst str_of_nat.simps) simp

lemma str_big: "\<not> n < 10 \<Longrightarrow> str_of_nat n = str_of_nat (n div 10) @ [digit_char (n mod 10)]"
  by (subst str_of_nat.simps) simp

lemma str_of_nat_inj: "str_of_nat a = str_of_nat b \<Longrightarrow> a = b"
proof (induction a arbitrary: b rule: str_of_nat.induct)
  case (1 n)
  show ?case
  proof (cases "n < 10")
    case True
    note n = this
    show ?thesis
    proof (cases "b < 10")
      case True
      with n "1.prems" have "digit_char n = digit_char b"
        by (simp add: str_small)
      with n True show ?thesis by (rule digit_inj)
    next
      case False
      with n "1.prems" have "[digit_char n] = str_of_nat (b div 10) @ [digit_char (b mod 10)]"
        by (simp add: str_small str_big)
      with str_of_nat_ne[of "b div 10"] show ?thesis by simp
    qed
  next
    case False
    note n = this
    show ?thesis
    proof (cases "b < 10")
      case True
      with n "1.prems" have "str_of_nat (n div 10) @ [digit_char (n mod 10)] = [digit_char b]"
        by (simp add: str_small str_big)
      with str_of_nat_ne[of "n div 10"] show ?thesis by simp
    next
      case False
      with n "1.prems" have e: "str_of_nat (n div 10) @ [digit_char (n mod 10)]
          = str_of_nat (b div 10) @ [digit_char (b mod 10)]"
        by (simp add: str_big)
      from e have e1: "str_of_nat (n div 10) = str_of_nat (b div 10)" by simp
      from e have e2: "digit_char (n mod 10) = digit_char (b mod 10)" by simp
      from "1.IH"[OF n e1] have d: "n div 10 = b div 10" .
      have "n mod 10 < 10" "b mod 10 < 10" by simp_all
      then have m: "n mod 10 = b mod 10" using e2 by (rule digit_inj)
      have "n = 10 * (n div 10) + n mod 10" by simp
      also have "\<dots> = 10 * (b div 10) + b mod 10" using d m by simp
      also have "\<dots> = b" by simp
      finally show ?thesis .
    qed
  qed
qed

lemma user_key_inj: "user_key i = user_key j \<Longrightarrow> i = j"
  unfolding user_key_def using str_of_nat_inj[of "i + 1" "j + 1"] by simp

lemma user_key_not_variable: "user_key i \<noteq> ''variable2''" "user_key i \<noteq> ''variable3''" "user_key i \<noteq> ''variable1''"
  unfolding user_key_def by simp_all

lemma map_of_dict_set: "map_of (dict_set k v d) = (map_of d)(k \<mapsto> v)"
  by (induction d) (auto simp: fun_eq_iff)

lemma dict_get_set_same: "dict_get (dict_set k v d) k dflt = v"
  by (simp add: dict_get_def map_of_dict_set)

lemma dict_get_set_other: "k' \<noteq> k \<Longrightarrow> dict_get (dict_set k v d) k' dflt = dict_get d k' dflt"
  by (simp add: dict_get_def map_of_dict_set)

section \<open>The loop of /send\<close>

lemma length_expected_calls: "length (expected_calls cfg tn names rs i tv) = length rs"
  by (induction rs arbitrary: i tv) simp_all

lemma send_loop_calls:
  "\<exists>n \<le> length rs. calls (send_loop up cfg tn names rs i tv cs ps)
       = cs @ take n (expected_calls cfg tn names rs i tv)"
proof (induction rs arbitrary: i tv cs ps)
  case Nil
  show ?case by simp
next
  case (Cons r rs)
  let ?tv = "bind_user names i tv"
  let ?c = "Post WHATSAPP_API_URL (payload r tn i ?tv) (send_headers cfg)"
  show ?case
  proof (cases "up (length cs) ?c")
    case (Inl e)
    then have "calls (send_loop up cfg tn names (r # rs) i tv cs ps)
        = cs @ take 1 (expected_calls cfg tn names (r # rs) i tv)"
      by (simp add: Let_def)
    then show ?thesis by (intro exI[of _ 1]) simp
  next
    case (Inr resp)
    note up = this
    show ?thesis
    proof (cases "body_json resp")
      case (Inl e)
      with up have "calls (send_loop up cfg tn names (r # rs) i tv cs ps)
          = cs @ take 1 (expected_calls cfg tn names (r # rs) i tv)"
        by (simp add: Let_def)
      then show ?thesis by (intro exI[of _ 1]) simp
    next
      case (Inr data)
      from Cons.IH[of "i + 1" ?tv "cs @ [?c]" "ps @ [(r, data)]"]
      obtain n where n: "n \<le> length rs"
        and c: "calls (send_loop up cfg tn names rs (i + 1) ?tv (cs @ [?c]) (ps @ [(r, data)]))
          = (cs @ [?c]) @ take n (expected_calls cfg tn names rs (i + 1) ?tv)"
        by blast
      from up Inr c have "calls (send_loop up cfg tn names (r # rs) i tv cs ps)
          = cs @ take (Suc n) (expected_calls cfg tn names (r # rs) i tv)"
        by (simp add: Let_def)
      with n show ?thesis by (intro exI[of _ "Suc n"]) simp
    qed
  qed
qed

lemma send_loop_answers:
  assumes "answers_json up"
  shows "calls (send_loop up cfg tn names rs i tv cs ps) = cs @ expected_calls cfg tn names rs i tv
       \<and> result (send_loop up cfg tn names rs i tv cs ps)
           = Inr (JObj [(''message'', JStr ''Messages sent successfully!'')], 200)"
proof (induction rs arbitrary: i tv cs ps)
  case Nil
  show ?case by simp
next
  case (Cons r rs)
  let ?tv = "bind_user names i tv"
  let ?c = "Post WHATSAPP_API_URL (payload r tn i ?tv) (send_headers cfg)"
  from assms obtain resp j where "up (length cs) ?c = Inr resp" "body_json resp = Inr j"
    unfolding answers_json_def by blast
  with Cons.IH[of "i + 1" ?tv "cs @ [?c]" "ps @ [(r, j)]"] show ?case
    by (simp add: Let_def)
qed

lemma bind_user_get_other:
  "k \<noteq> user_key i \<Longrightarrow> dict_get (bind_user names i tv) k dflt = dict_get tv k dflt"
  by (simp add: bind_user_def dict_get_set_other)

lemma bind_user_get_same:
  "dict_get (bind_user names i tv) (user_key i) (JStr '''') = first_parameter names tv i"
  by (simp add: bind_user_def dict_get_set_same first_parameter_def)

lemma first_parameter_bind:
  "i \<noteq> j \<Longrightarrow> first_parameter names (bind_user names i tv) j = first_parameter names tv j"
proof -
  assume "i \<noteq> j"
  with user_key_inj[of j i] have "user_key j \<noteq> user_key i" by blast
  then have "dict_get (bind_user names i tv) (user_key j) (JStr '''')
      = dict_get tv (user_key j) (JStr '''')"
    by (rule bind_user_get_other)
  then show ?thesis by (simp add: first_parameter_def)
qed

lemma payload_message:
  "payload r tn i tv = message r tn (dict_get tv (user_key i) (JStr ''''))
      (dict_get tv ''variable2'' (JStr '''')) (dict_get tv ''variable3'' (JStr ''''))"
  by (simp add: payload_def message_def)

lemma expected_calls_nth:
  "k < length rs \<Longrightarrow> expected_calls cfg tn names rs i tv ! k
     = Post WHATSAPP_API_URL
         (message (rs ! k) tn (first_parameter names tv (i + k))
            (dict_get tv ''variable2'' (JStr '''')) (dict_get tv ''variable3'' (JStr '''')))
         (send_headers cfg)"
proof (induction rs arbitrary: i tv k)
  case Nil
  then show ?case by simp
next
  case (Cons r rs)
  show ?case
  proof (cases k)
    case 0
    then show ?thesis
      by (simp add: payload_message bind_user_get_same bind_user_get_other user_key_not_variable[symmetric])
  next
    case (Suc k')
    with Cons.prems have "k' < length rs" by simp
    from Cons.IH[OF this, of "i + 1" "bind_user names i tv"] Suc show ?thesis
      by (simp add: first_parameter_bind bind_user_get_other user_key_not_variable[symmetric])
  qed
qed

section \<open>What /send does for a well-typed request\<close>

text \<open>
  A request is well typed when \<open>recipients\<close> is a list, \<open>template_variables\<close> is
  absent or an object, and \<open>variable1\<close> is absent or a string. The handlers take the
  body as a parsed JSON object.
\<close>

lemma send_message_valid:
  assumes "dict_get d ''recipients'' JNull = JArr rs" and "rs \<noteq> []"
    and "truthy (dict_get d ''template_name'' JNull)"
    and "dict_get d ''template_variables'' (JObj []) = JObj tv"
    and "dict_get tv ''variable1'' (JStr '''') = JStr v1"
  shows "send_message up cfg (JObj d)
    = send_loop up cfg (dict_get d ''template_name'' JNull) (split CHR '','' v1) rs 0 tv [] []"
  using assms by (simp add: send_message_def)

lemma send_message_no_recipients:
  assumes "dict_get d ''recipients'' JNull = JArr []"
  shows "calls (send_message up cfg (JObj d)) = []"
  using assms by (simp add: send_message_def split: sum.splits)

lemma send_message_call_nth:
  assumes r: "dict_get d ''recipients'' JNull = JArr rs"
    and t: "truthy (dict_get d ''template_name'' JNull)"
    and v: "dict_get d ''template_variables'' (JObj []) = JObj tv"
    and n: "dict_get tv ''variable1'' (JStr '''') = JStr v1"
    and i: "i < length (calls (send_message up cfg (JObj d)))"
  shows "i < length rs \<and> calls (send_message up cfg (JObj d)) ! i
     = Post WHATSAPP_API_URL
         (message (rs ! i) (dict_get d ''template_name'' JNull)
            (first_parameter (split CHR '','' v1) tv i)
            (dict_get tv ''variable2'' (JStr '''')) (dict_get tv ''variable3'' (JStr '''')))
         (send_headers cfg)"
proof -
  let ?tn = "dict_get d ''template_name'' JNull"
  let ?names = "split CHR '','' v1"
  from i send_message_no_recipients[of d up cfg] r have ne: "rs \<noteq> []" by auto
  from send_message_valid[OF r ne t v n]
  have eq: "send_message up cfg (JObj d) = send_loop up cfg ?tn ?names rs 0 tv [] []" .
  from send_loop_calls[of rs up cfg ?tn ?names 0 tv "[]" "[]"]
  obtain m where m: "m \<le> length rs"
    and c: "calls (send_loop up cfg ?tn ?names rs 0 tv [] [])
        = take m (expected_calls cfg ?tn ?names rs 0 tv)"
    by auto
  from i eq c m have im: "i < m" by (simp add: length_expected_calls)
  with m have il: "i < length rs" by simp
  from eq c im have "calls (send_message up cfg (JObj d)) ! i
      = expected_calls cfg ?tn ?names rs 0 tv ! i" by simp
  with expected_calls_nth[OF il, of cfg ?tn ?names 0 tv] il show ?thesis by simp
qed

lemma body_parameters_message: "body_parameters (message r tn p1 p2 p3) = [p1, p2, p3]"
  by (simp add: body_parameters_def message_def field_def dict_get_def)

lemma field_to_message: "field ''to'' (message r tn p1 p2 p3) = r"
  by (simp add: message_def field_def dict_get_def)

lemma send_message_answers:
  assumes r: "dict_get d ''recipients'' JNull = JArr rs" and ne: "rs \<noteq> []"
    and t: "truthy (dict_get d ''template_name'' JNull)"
    and v: "dict_get d ''template_variables'' (JObj []) = JObj tv"
    and n: "dict_get tv ''variable1'' (JStr '''') = JStr v1"
    and a: "answers_json up"
  shows "result (send_message up cfg (JObj d))
           = Inr (JObj [(''message'', JStr ''Messages sent successfully!'')], 200)
       \<and> length (calls (send_message up cfg (JObj d))) = length rs"
  using send_loop_answers[OF a, of cfg "dict_get d ''template_name'' JNull"
      "split CHR '','' v1" rs 0 tv "[]" "[]"]
  by (simp add: send_message_valid[OF r ne t v n] length_expected_calls)

lemma user_key_1: "user_key 1 = ''user2''"
  by (simp add: user_key_def str_small digit_char_def)

lemma answers_json_500: "answers_json provider_500"
  by (simp add: answers_json_def provider_500_def)

lemma calls_ab: "length (calls (send_message provider_200 example_config (JObj dict_ab))) = 2"
  by (simp add: dict_ab_def send_message_def dict_get_def provider_200_def Let_def)

lemma eval_user2:
  "calls (send_message provider_200 example_config (JObj dict_user2))
     = [Post WHATSAPP_API_URL (message (JStr ''a'') (JStr ''welcome'') (JStr ''X'') (JStr '''') (JStr ''''))
          (send_headers example_config),
        Post WHATSAPP_API_URL (message (JStr ''b'') (JStr ''welcome'') (JStr ''Z'') (JStr '''') (JStr ''''))
          (send_headers example_config)]"
  by (simp add: dict_user2_def send_message_def dict_get_def provider_200_def Let_def
      payload_def message_def bind_user_def user_key_def str_small digit_char_def)

section \<open>The claims about /send\<close>

text \<open>
  C1, as amended. \<open>variable_names\<close> is \<open>variable1\<close> split on the comma (one empty name
  when \<open>variable1\<close> is missing). The message at position \<open>i\<close> goes to recipient \<open>i\<close>, and
  its first body parameter is \<open>variable_names[i]\<close> when \<open>i < len(variable_names)\<close>;
  otherwise it is the value the caller supplied under the key \<open>user{i+1}\<close>, and the empty
  string only when there is no such key. In particular the first recipient of a request
  with no \<open>variable1\<close>, \<open>variable2\<close> and \<open>variable3\<close> gets three empty strings.
\<close>

theorem send_first_parameter:
  assumes "dict_get d ''recipients'' JNull = JArr rs"
    and "truthy (dict_get d ''template_name'' JNull)"
    and "dict_get d ''template_variables'' (JObj []) = JObj tv"
    and "dict_get tv ''variable1'' (JStr '''') = JStr v1"
    and "i < length (calls (send_message up cfg (JObj d)))"
  shows "\<exists>p h. calls (send_message up cfg (JObj d)) ! i = Post WHATSAPP_API_URL p h
     \<and> field ''to'' p = rs ! i
     \<and> body_parameters p ! 0
         = (if i < length (split CHR '','' v1) then JStr (split CHR '','' v1 ! i)
            else dict_get tv (user_key i) (JStr ''''))
     \<and> (i = 0 \<and> map_of tv ''variable1'' = None \<and> map_of tv ''variable2'' = None
          \<and> map_of tv ''variable3'' = None
        \<longrightarrow> body_parameters p = [JStr '''', JStr '''', JStr ''''])"
proof -
  let ?p = "message (rs ! i) (dict_get d ''template_name'' JNull)
            (first_parameter (split CHR '','' v1) tv i)
            (dict_get tv ''variable2'' (JStr '''')) (dict_get tv ''variable3'' (JStr ''''))"
  from send_message_call_nth[OF assms]
  have c: "calls (send_message up cfg (JObj d)) ! i = Post WHATSAPP_API_URL ?p (send_headers cfg)"
    by simp
  have f: "field ''to'' ?p = rs ! i" by (rule field_to_message)
  have b: "body_parameters ?p ! 0
         = (if i < length (split CHR '','' v1) then JStr (split CHR '','' v1 ! i)
            else dict_get tv (user_key i) (JStr ''''))"
    by (simp add: body_parameters_message first_parameter_def)
  have e: "i = 0 \<and> map_of tv ''variable1'' = None \<and> map_of tv ''variable2'' = None
          \<and> map_of tv ''variable3'' = None
        \<longrightarrow> body_parameters ?p = [JStr '''', JStr '''', JStr '''']"
  proof
    assume a: "i = 0 \<and> map_of tv ''variable1'' = None \<and> map_of tv ''variable2'' = None
          \<and> map_of tv ''variable3'' = None"
    with assms(4) have "v1 = []" by (simp add: dict_get_def)
    with a show "body_parameters ?p = [JStr '''', JStr '''', JStr '''']"
      by (simp add: body_parameters_message first_parameter_def dict_get_def)
  qed
  from c f b e show ?thesis by blast
qed

text \<open>
  An instance: the second message of the example request goes to \<open>b\<close> with first
  parameter \<open>Y\<close>.
\<close>

theorem send_first_parameter_witness:
  "dict_get dict_ab ''recipients'' JNull = JArr [JStr ''a'', JStr ''b'']
   \<and> truthy (dict_get dict_ab ''template_name'' JNull)
   \<and> dict_get dict_ab ''template_variables'' (JObj [])
       = JObj [(''variable1'', JStr ''X,Y''), (''variable2'', JStr ''V2''), (''variable3'', JStr ''V3'')]
   \<and> 1 < length (calls (send_message provider_200 example_config (JObj dict_ab)))
   \<and> (\<exists>p h. calls (send_message provider_200 example_config (JObj dict_ab)) ! 1
               = Post WHATSAPP_API_URL p h
        \<and> field ''to'' p = JStr ''b'' \<and> body_parameters p ! 0 = JStr ''Y'')"
proof -
  let ?tv = "[(''variable1'', JStr ''X,Y''), (''variable2'', JStr ''V2''), (''variable3'', JStr ''V3'')]"
  have h1: "dict_get dict_ab ''recipients'' JNull = JArr [JStr ''a'', JStr ''b'']"
    by (simp add: dict_ab_def dict_get_def)
  have h2: "truthy (dict_get dict_ab ''template_name'' JNull)"
    by (simp add: dict_ab_def dict_get_def)
  have h3: "dict_get dict_ab ''template_variables'' (JObj []) = JObj ?tv"
    by (simp add: dict_ab_def dict_get_def)
  have h4: "dict_get ?tv ''variable1'' (JStr '''') = JStr ''X,Y''"
    by (simp add: dict_get_def)
  have h5: "1 < length (calls (send_message provider_200 example_config (JObj dict_ab)))"
    by (simp add: calls_ab)
  from send_first_parameter[OF h1 h2 h3 h4 h5] h1 h2 h3 h5 show ?thesis
    by simp
qed

text \<open>
  With one name for two recipients and a caller-supplied \<open>user2\<close>, the second message
  carries the caller's value \<open>Z\<close> where the unamended claim promises the empty string.
\<close>

theorem send_first_parameter_counterexample:
  "body_parameters (posted (send_message provider_200 example_config (JObj dict_user2)) ! 1) ! 0
     = JStr ''Z''"
  by (simp add: posted_def eval_user2 body_parameters_message)

text \<open>
  C3. A request whose \<open>recipients\<close> is absent or empty, or whose \<open>template_name\<close> is
  absent, is answered with status 400 and the body
  \<open>{"error": "Missing required parameters"}\<close>, and nothing is sent upstream.
\<close>

theorem send_missing_parameters:
  assumes "map_of d ''recipients'' = None \<or> dict_get d ''recipients'' JNull = JArr []
           \<or> map_of d ''template_name'' = None"
  shows "send_message up cfg (JObj d)
    = \<lparr>calls = [], printed = [],
       result = Inr (JObj [(''error'', JStr ''Missing required parameters'')], 400)\<rparr>"
proof -
  from assms have "\<not> truthy (dict_get d ''recipients'' JNull)
      \<or> \<not> truthy (dict_get d ''template_name'' JNull)"
    by (auto simp: dict_get_def)
  then show ?thesis by (auto simp: send_message_def)
qed

text \<open>
  An instance: a request that names a template and no recipients.
\<close>

theorem send_missing_parameters_witness:
  "(map_of [(''template_name'', JStr ''welcome'')] ''recipients'' = None
      \<or> dict_get [(''template_name'', JStr ''welcome'')] ''recipients'' JNull = JArr []
      \<or> map_of [(''template_name'', JStr ''welcome'')] ''template_name'' = None)
   \<and> send_message provider_200 example_config (JObj [(''template_name'', JStr ''welcome'')])
       = \<lparr>calls = [], printed = [],
          result = Inr (JObj [(''error'', JStr ''Missing required parameters'')], 400)\<rparr>"
proof -
  have h: "map_of [(''template_name'', JStr ''welcome'')] ''recipients'' = None
      \<or> dict_get [(''template_name'', JStr ''welcome'')] ''recipients'' JNull = JArr []
      \<or> map_of [(''template_name'', JStr ''welcome'')] ''template_name'' = None"
    by simp
  from send_missing_parameters[OF h, of provider_200 example_config] h show ?thesis
    by blast
qed

text \<open>
  C9. The synthesized keys live in the caller's dict: at a position \<open>i\<close> for which
  \<open>variable1\<close> holds no name, a key \<open>user{i+1}\<close> supplied by the caller gives the first body
  parameter of that recipient.
\<close>

theorem send_caller_user_key:
  assumes "dict_get d ''recipients'' JNull = JArr rs"
    and "truthy (dict_get d ''template_name'' JNull)"
    and "dict_get d ''template_variables'' (JObj []) = JObj tv"
    and "dict_get tv ''variable1'' (JStr '''') = JStr v1"
    and "i < length (calls (send_message up cfg (JObj d)))"
    and "length (split CHR '','' v1) \<le> i"
    and "map_of tv (user_key i) = Some v"
  shows "\<exists>p h. calls (send_message up cfg (JObj d)) ! i = Post WHATSAPP_API_URL p h
     \<and> field ''to'' p = rs ! i \<and> body_parameters p ! 0 = v"
proof -
  let ?p = "message (rs ! i) (dict_get d ''template_name'' JNull)
            (first_parameter (split CHR '','' v1) tv i)
            (dict_get tv ''variable2'' (JStr '''')) (dict_get tv ''variable3'' (JStr ''''))"
  from send_message_call_nth[OF assms(1-5)]
  have c: "calls (send_message up cfg (JObj d)) ! i = Post WHATSAPP_API_URL ?p (send_headers cfg)"
    by simp
  have f: "field ''to'' ?p = rs ! i" by (rule field_to_message)
  from assms(6,7) have b: "body_parameters ?p ! 0 = v"
    by (simp add: body_parameters_message first_parameter_def dict_get_def)
  from c f b show ?thesis by blast
qed

text \<open>
  An instance: one name, two recipients, and \<open>user2\<close> set to \<open>Z\<close> by the caller.
\<close>

theorem send_caller_user_key_witness:
  "dict_get dict_user2 ''recipients'' JNull = JArr [JStr ''a'', JStr ''b'']
   \<and> truthy (dict_get dict_user2 ''template_name'' JNull)
   \<and> dict_get dict_user2 ''template_variables'' (JObj [])
       = JObj [(''variable1'', JStr ''X''), (''user2'', JStr ''Z'')]
   \<and> 1 < length (calls (send_message provider_200 example_config (JObj dict_user2)))
   \<and> length (split CHR '','' ''X'') \<le> 1
   \<and> map_of [(''variable1'', JStr ''X''), (''user2'', JStr ''Z'')] (user_key 1) = Some (JStr ''Z'')
   \<and> (\<exists>p h. calls (send_message provider_200 example_config (JObj dict_user2)) ! 1
               = Post WHATSAPP_API_URL p h
        \<and> field ''to'' p = JStr ''b'' \<and> body_parameters p ! 0 = JStr ''Z'')"
proof -
  let ?tv = "[(''variable1'', JStr ''X''), (''user2'', JStr ''Z'')]"
  have h1: "dict_get dict_user2 ''recipients'' JNull = JArr [JStr ''a'', JStr ''b'']"
    by (simp add: dict_user2_def dict_get_def)
  have h2: "truthy (dict_get dict_user2 ''template_name'' JNull)"
    by (simp add: dict_user2_def dict_get_def)
  have h3: "dict_get dict_user2 ''template_variables'' (JObj []) = JObj ?tv"
    by (simp add: dict_user2_def dict_get_def)
  have h4: "dict_get ?tv ''variable1'' (JStr '''') = JStr ''X''"
    by (simp add: dict_get_def)
  have h5: "1 < length (calls (send_message provider_200 example_config (JObj dict_user2)))"
    by (simp add: eval_user2)
  have h6: "length (split CHR '','' ''X'') \<le> 1" by simp
  have h7: "map_of ?tv (user_key 1) = Some (JStr ''Z'')"
    unfolding user_key_1 by simp
  from send_caller_user_key[OF h1 h2 h3 h4 h5 h6 h7] h1 h2 h3 h5 h6 h7 show ?thesis
    by simp
qed

text \<open>
  C4, as amended. For a valid, well-typed request, when every upstream call returns a
  response whose body parses as JSON, whatever its status, every recipient is processed
  in order and the answer is status 200 with
  \<open>{"message": "Messages sent successfully!"}\<close>.
\<close>

theorem send_success_when_upstream_answers:
  assumes "dict_get d ''recipients'' JNull = JArr rs" and "rs \<noteq> []"
    and "truthy (dict_get d ''template_name'' JNull)"
    and "dict_get d ''template_variables'' (JObj []) = JObj tv"
    and "dict_get tv ''variable1'' (JStr '''') = JStr v1"
    and "answers_json up"
  shows "result (send_message up cfg (JObj d))
           = Inr (JObj [(''message'', JStr ''Messages sent successfully!'')], 200)
       \<and> length (calls (send_message up cfg (JObj d))) = length rs
       \<and> (\<forall>i < length rs. \<exists>p h. calls (send_message up cfg (JObj d)) ! i
              = Post WHATSAPP_API_URL p h \<and> field ''to'' p = rs ! i)"
proof -
  note a = send_message_answers[OF assms, of cfg]
  have "\<forall>i < length rs. \<exists>p h. calls (send_message up cfg (JObj d)) ! i
              = Post WHATSAPP_API_URL p h \<and> field ''to'' p = rs ! i"
  proof (intro allI impI)
    fix i assume "i < length rs"
    with a have i: "i < length (calls (send_message up cfg (JObj d)))" by simp
    from send_message_call_nth[OF assms(1,3,4,5) i] show
      "\<exists>p h. calls (send_message up cfg (JObj d)) ! i
              = Post WHATSAPP_API_URL p h \<and> field ''to'' p = rs ! i"
      by (simp add: field_to_message)
  qed
  with a show ?thesis by blast
qed

text \<open>
  An instance: the provider fails both calls with status 500, and the answer is still
  the success message.
\<close>

theorem send_success_when_upstream_answers_witness:
  "dict_get dict_ab ''recipients'' JNull = JArr [JStr ''a'', JStr ''b'']
   \<and> [JStr ''a'', JStr ''b''] \<noteq> []
   \<and> truthy (dict_get dict_ab ''template_name'' JNull)
   \<and> dict_get dict_ab ''template_variables'' (JObj [])
       = JObj [(''variable1'', JStr ''X,Y''), (''variable2'', JStr ''V2''), (''variable3'', JStr ''V3'')]
   \<and> answers_json provider_500
   \<and> result (send_message provider_500 example_config (JObj dict_ab))
       = Inr (JObj [(''message'', JStr ''Messages sent successfully!'')], 200)
   \<and> length (calls (send_message provider_500 example_config (JObj dict_ab))) = 2"
proof -
  let ?tv = "[(''variable1'', JStr ''X,Y''), (''variable2'', JStr ''V2''), (''variable3'', JStr ''V3'')]"
  have h1: "dict_get dict_ab ''recipients'' JNull = JArr [JStr ''a'', JStr ''b'']"
    by (simp add: dict_ab_def dict_get_def)
  have h2: "[JStr ''a'', JStr ''b''] \<noteq> []" by simp
  have h3: "truthy (dict_get dict_ab ''template_name'' JNull)"
    by (simp add: dict_ab_def dict_get_def)
  have h4: "dict_get dict_ab ''template_variables'' (JObj []) = JObj ?tv"
    by (simp add: dict_ab_def dict_get_def)
  have h5: "dict_get ?tv ''variable1'' (JStr '''') = JStr ''X,Y''"
    by (simp add: dict_get_def)
  note h6 = answers_json_500
  from send_success_when_upstream_answers[OF h1 h2 h3 h4 h5 h6, of example_config]
    h1 h2 h3 h4 h6 show ?thesis
    by simp
qed

text \<open>
  When the first upstream call raises, the exception leaves the handler: there is no
  status 200, and the second recipient is never processed.
\<close>

theorem send_upstream_exception_counterexample:
  "result (send_message provider_first_raises example_config (JObj dict_ab))
     = Inl (RequestException ''connection refused'')
   \<and> length (calls (send_message provider_first_raises example_config (JObj dict_ab))) = 1"
  by (simp add: dict_ab_def send_message_def dict_get_def provider_first_raises_def Let_def)

section \<open>More claims about /send\<close>

lemma dict_get_range: "dict_get d k dflt = dflt \<or> dict_get d k dflt \<in> snd ` set d"
proof (cases "map_of d k")
  case None
  then show ?thesis by (simp add: dict_get_def)
next
  case (Some v)
  then have "(k, v) \<in> set d" by (rule map_of_SomeD)
  then have "v \<in> snd ` set d" by force
  with Some show ?thesis by (simp add: dict_get_def)
qed

lemma expected_calls_ab:
  "expected_calls cfg tn (split CHR '','' ''X,Y'') [JStr ''a'', JStr ''b''] 0
     [(''variable1'', JStr ''X,Y''), (''variable2'', JStr ''V2''), (''variable3'', JStr ''V3'')]
   = [Post WHATSAPP_API_URL (message (JStr ''a'') tn (JStr ''X'') (JStr ''V2'') (JStr ''V3''))
        (send_headers cfg),
      Post WHATSAPP_API_URL (message (JStr ''b'') tn (JStr ''Y'') (JStr ''V2'') (JStr ''V3''))
        (send_headers cfg)]"
  by (simp add: payload_message bind_user_def user_key_def str_small digit_char_def dict_get_def)

lemma observe_message: "observe (message r tn p1 p2 p3) = (r, [p1, p2, p3])"
  by (simp add: observe_def field_to_message body_parameters_message)

lemma answers_json_200: "answers_json provider_200"
  by (simp add: answers_json_def provider_200_def)

lemma send_loop_calls_exact:
  "\<exists>n \<le> length rs. calls (send_loop up cfg tn names rs i tv cs ps)
       = cs @ take n (expected_calls cfg tn names rs i tv)
     \<and> (rs \<noteq> [] \<longrightarrow> 0 < n)
     \<and> (n < length rs \<longrightarrow>
          \<not> answered up (length cs + n - 1) (expected_calls cfg tn names rs i tv ! (n - 1)))"
proof (induction rs arbitrary: i tv cs ps)
  case Nil
  show ?case by simp
next
  case (Cons r rs)
  let ?tv = "bind_user names i tv"
  let ?c = "Post WHATSAPP_API_URL (payload r tn i ?tv) (send_headers cfg)"
  let ?E = "expected_calls cfg tn names rs (i + 1) ?tv"
  have E: "expected_calls cfg tn names (r # rs) i tv = ?c # ?E" by simp
  show ?case
  proof (cases "answered up (length cs) ?c")
    case False
    then have "calls (send_loop up cfg tn names (r # rs) i tv cs ps) = cs @ [?c]"
      by (auto simp: answered_def Let_def split: sum.splits)
    with False show ?thesis
      by (intro exI[of _ 1]) (simp add: Let_def)
  next
    case True
    then obtain resp data where up: "up (length cs) ?c = Inr resp"
      and bj: "body_json resp = Inr data"
      by (auto simp: answered_def split: sum.splits)
    from Cons.IH[of "i + 1" ?tv "cs @ [?c]" "ps @ [(r, data)]"]
    obtain n where n: "n \<le> length rs"
      and c: "calls (send_loop up cfg tn names rs (i + 1) ?tv (cs @ [?c]) (ps @ [(r, data)]))
          = (cs @ [?c]) @ take n ?E"
      and pos: "rs \<noteq> [] \<longrightarrow> 0 < n"
      and stop: "n < length rs \<longrightarrow> \<not> answered up (length (cs @ [?c]) + n - 1) (?E ! (n - 1))"
      by blast
    from up bj c have c': "calls (send_loop up cfg tn names (r # rs) i tv cs ps)
          = cs @ take (Suc n) (?c # ?E)"
      by (simp add: Let_def)
    have stop': "Suc n < length (r # rs) \<longrightarrow>
        \<not> answered up (length cs + Suc n - 1) ((?c # ?E) ! (Suc n - 1))"
    proof
      assume a: "Suc n < length (r # rs)"
      then have l: "n < length rs" by simp
      then have "rs \<noteq> []" by auto
      with pos have p: "0 < n" by simp
      from stop l have "\<not> answered up (length (cs @ [?c]) + n - 1) (?E ! (n - 1))" by simp
      moreover from p have "(?c # ?E) ! (Suc n - 1) = ?E ! (n - 1)" by (cases n) simp_all
      moreover from p have "length (cs @ [?c]) + n - 1 = length cs + Suc n - 1" by simp
      ultimately show "\<not> answered up (length cs + Suc n - 1) ((?c # ?E) ! (Suc n - 1))"
        by simp
    qed
    from n c' stop' show ?thesis
      unfolding E by (intro exI[of _ "Suc n"]) simp
  qed
qed

lemma send_message_calls_exact:
  assumes r: "dict_get d ''recipients'' JNull = JArr rs"
    and t: "truthy (dict_get d ''template_name'' JNull)"
    and v: "dict_get d ''template_variables'' (JObj []) = JObj tv"
    and n: "dict_get tv ''variable1'' (JStr '''') = JStr v1"
  shows "length (calls (send_message up cfg (JObj d))) \<le> length rs
     \<and> (rs \<noteq> [] \<longrightarrow> calls (send_message up cfg (JObj d)) \<noteq> [])
     \<and> (length (calls (send_message up cfg (JObj d))) < length rs \<longrightarrow>
          \<not> answered up (length (calls (send_message up cfg (JObj d))) - 1)
               (last (calls (send_message up cfg (JObj d)))))"
proof (cases "rs = []")
  case True
  with r send_message_no_recipients[of d up cfg] show ?thesis by simp
next
  case False
  let ?tn = "dict_get d ''template_name'' JNull"
  let ?names = "split CHR '','' v1"
  let ?E = "expected_calls cfg ?tn ?names rs 0 tv"
  let ?out = "send_message up cfg (JObj d)"
  from send_message_valid[OF r False t v n]
  have eq: "?out = send_loop up cfg ?tn ?names rs 0 tv [] []" .
  from send_loop_calls_exact[of rs up cfg ?tn ?names 0 tv "[]" "[]"]
  obtain m where m: "m \<le> length rs"
    and c: "calls (send_loop up cfg ?tn ?names rs 0 tv [] []) = [] @ take m ?E"
    and pos: "rs \<noteq> [] \<longrightarrow> 0 < m"
    and stop: "m < length rs \<longrightarrow> \<not> answered up (length ([]::http_call list) + m - 1) (?E ! (m - 1))"
    by blast
  from eq c have ce: "calls ?out = take m ?E" by (simp only: append_Nil)
  with m have len: "length (calls ?out) = m" by (simp add: length_expected_calls)
  from pos False have p: "0 < m" by simp
  from len p have ne: "calls ?out \<noteq> []" by auto
  have st: "length (calls ?out) < length rs \<longrightarrow>
          \<not> answered up (length (calls ?out) - 1) (last (calls ?out))"
  proof
    assume "length (calls ?out) < length rs"
    with len have l: "m < length rs" by simp
    with stop have s: "\<not> answered up (m - 1) (?E ! (m - 1))" by simp
    from ne have "last (calls ?out) = calls ?out ! (length (calls ?out) - 1)"
      by (rule last_conv_nth)
    also from len have "\<dots> = take m ?E ! (m - 1)" by (simp only: ce)
    also from p have "\<dots> = ?E ! (m - 1)" by simp
    finally show "\<not> answered up (length (calls ?out) - 1) (last (calls ?out))"
      using s len by simp
  qed
  from len m ne st show ?thesis by simp
qed

lemma answers_json_answered: "answers_json up \<Longrightarrow> answered up k c"
  by (auto simp: answers_json_def answered_def dest: spec[of _ k] split: sum.splits)
    (metis sum.distinct(1) old.sum.inject(2))+

lemma eval_ab:
  "calls (send_message provider_200 example_config (JObj dict_ab))
     = [Post WHATSAPP_API_URL
          (message (JStr ''a'') (JStr ''welcome'') (JStr ''X'') (JStr ''V2'') (JStr ''V3''))
          (send_headers example_config),
        Post WHATSAPP_API_URL
          (message (JStr ''b'') (JStr ''welcome'') (JStr ''Y'') (JStr ''V2'') (JStr ''V3''))
          (send_headers example_config)]"
  by (simp add: dict_ab_def send_message_def dict_get_def provider_200_def Let_def
      payload_def message_def bind_user_def user_key_def str_small digit_char_def)

lemma send_payload_nth:
  assumes "dict_get d ''recipients'' JNull = JArr rs"
    and "truthy (dict_get d ''template_name'' JNull)"
    and "dict_get d ''template_variables'' (JObj []) = JObj tv"
    and "dict_get tv ''variable1'' (JStr '''') = JStr v1"
    and "i < length (calls (send_message up cfg (JObj d)))"
  shows "\<exists>p1. calls (send_message up cfg (JObj d)) ! i
     = Post WHATSAPP_API_URL
         (JObj [
            (''messaging_product'', JStr ''whatsapp''),
            (''recipient_type'', JStr ''individual''),
            (''to'', rs ! i),
            (''type'', JStr ''template''),
            (''template'', JObj [
               (''name'', dict_get d ''template_name'' JNull),
               (''language'', JObj [(''code'', JStr ''en_US'')]),
               (''components'', JArr [
                  JObj [
                    (''type'', JStr ''body''),
                    (''parameters'', JArr [
                       JObj [(''type'', JStr ''text''), (''text'', p1)],
                       JObj [(''type'', JStr ''text''),
                             (''text'', dict_get tv ''variable2'' (JStr ''''))],
                       JObj [(''type'', JStr ''text''),
                             (''text'', dict_get tv ''variable3'' (JStr ''''))]
                    ])
                  ]
               ])
            ])
          ])
         (send_headers cfg)
     \<and> ((\<forall>v \<in> snd ` set tv. \<exists>s. v = JStr s)
          \<longrightarrow> (\<exists>s1 s2 s3. p1 = JStr s1 \<and> dict_get tv ''variable2'' (JStr '''') = JStr s2
                 \<and> dict_get tv ''variable3'' (JStr '''') = JStr s3))"
proof -
  let ?p1 = "first_parameter (split CHR '','' v1) tv i"
  from send_message_call_nth[OF assms]
  have c: "calls (send_message up cfg (JObj d)) ! i
     = Post WHATSAPP_API_URL
         (message (rs ! i) (dict_get d ''template_name'' JNull) ?p1
            (dict_get tv ''variable2'' (JStr '''')) (dict_get tv ''variable3'' (JStr '''')))
         (send_headers cfg)"
    by simp
  have s: "(\<forall>v \<in> snd ` set tv. \<exists>s. v = JStr s)
          \<longrightarrow> (\<exists>s1 s2 s3. ?p1 = JStr s1 \<and> dict_get tv ''variable2'' (JStr '''') = JStr s2
                 \<and> dict_get tv ''variable3'' (JStr '''') = JStr s3)"
  proof
    assume a: "\<forall>v \<in> snd ` set tv. \<exists>s. v = JStr s"
    have str: "\<exists>s. dict_get tv k (JStr '''') = JStr s" for k
      using dict_get_range[of tv k "JStr ''''"] a by auto
    have "\<exists>s1. ?p1 = JStr s1"
      using str[of "user_key i"] by (simp add: first_parameter_def)
    with str[of "''variable2''"] str[of "''variable3''"]
    show "\<exists>s1 s2 s3. ?p1 = JStr s1 \<and> dict_get tv ''variable2'' (JStr '''') = JStr s2
                 \<and> dict_get tv ''variable3'' (JStr '''') = JStr s3"
      by blast
  qed
  from c s show ?thesis unfolding message_def by blast
qed

text \<open>
  C2, as amended. For recipients \<open>["a", "b"]\<close> and the variables \<open>variable1 = "X,Y"\<close>,
  \<open>variable2 = "V2"\<close>, \<open>variable3 = "V3"\<close>, the messages go out in the order of the
  recipients, at most one for each: the one for \<open>a\<close>, with parameters
  \<open>["X", "V2", "V3"]\<close>, is posted whatever the provider does, and what is posted is always
  an initial part of the two; when every upstream call returns a response whose body
  parses as JSON, exactly one message is posted for each recipient, the second being the
  one for \<open>b\<close> with \<open>["Y", "V2", "V3"]\<close>.
\<close>

theorem send_example_two_recipients:
  assumes "truthy template_name"
  shows "(\<exists>n. 1 \<le> n \<and> n \<le> 2 \<and>
           map observe (posted (send_message up cfg (JObj
             [(''recipients'', JArr [JStr ''a'', JStr ''b'']),
              (''template_name'', template_name),
              (''template_variables'',
               JObj [(''variable1'', JStr ''X,Y''), (''variable2'', JStr ''V2''),
                     (''variable3'', JStr ''V3'')])])))
           = take n [(JStr ''a'', [JStr ''X'', JStr ''V2'', JStr ''V3'']),
                     (JStr ''b'', [JStr ''Y'', JStr ''V2'', JStr ''V3''])])
       \<and> (answers_json up \<longrightarrow>
           map observe (posted (send_message up cfg (JObj
             [(''recipients'', JArr [JStr ''a'', JStr ''b'']),
              (''template_name'', template_name),
              (''template_variables'',
               JObj [(''variable1'', JStr ''X,Y''), (''variable2'', JStr ''V2''),
                     (''variable3'', JStr ''V3'')])])))
           = [(JStr ''a'', [JStr ''X'', JStr ''V2'', JStr ''V3'']),
              (JStr ''b'', [JStr ''Y'', JStr ''V2'', JStr ''V3''])]
           \<and> length (calls (send_message up cfg (JObj
             [(''recipients'', JArr [JStr ''a'', JStr ''b'']),
              (''template_name'', template_name),
              (''template_variables'',
               JObj [(''variable1'', JStr ''X,Y''), (''variable2'', JStr ''V2''),
                     (''variable3'', JStr ''V3'')])]))) = 2)"
proof -
  let ?tv = "[(''variable1'', JStr ''X,Y''), (''variable2'', JStr ''V2''), (''variable3'', JStr ''V3'')]"
  let ?d = "[(''recipients'', JArr [JStr ''a'', JStr ''b'']),
              (''template_name'', template_name),
              (''template_variables'', JObj ?tv)]"
  let ?rs = "[JStr ''a'', JStr ''b'']"
  let ?names = "split CHR '','' ''X,Y''"
  let ?E = "[Post WHATSAPP_API_URL (message (JStr ''a'') template_name (JStr ''X'') (JStr ''V2'') (JStr ''V3''))
        (send_headers cfg),
      Post WHATSAPP_API_URL (message (JStr ''b'') template_name (JStr ''Y'') (JStr ''V2'') (JStr ''V3''))
        (send_headers cfg)]"
  have h1: "dict_get ?d ''recipients'' JNull = JArr ?rs" by (simp add: dict_get_def)
  have h2: "?rs \<noteq> []" by simp
  have tn: "dict_get ?d ''template_name'' JNull = template_name" by (simp add: dict_get_def)
  with assms have h3: "truthy (dict_get ?d ''template_name'' JNull)" by simp
  have h4: "dict_get ?d ''template_variables'' (JObj []) = JObj ?tv" by (simp add: dict_get_def)
  have h5: "dict_get ?tv ''variable1'' (JStr '''') = JStr ''X,Y''" by (simp add: dict_get_def)
  from send_message_valid[OF h1 h2 h3 h4 h5, of up cfg] tn
  have eq: "send_message up cfg (JObj ?d) = send_loop up cfg template_name ?names ?rs 0 ?tv [] []"
    by simp
  from send_loop_calls_exact[of ?rs up cfg template_name ?names 0 ?tv "[]" "[]"]
  have "\<exists>n \<le> length ?rs. calls (send_loop up cfg template_name ?names ?rs 0 ?tv [] [])
      = [] @ take n ?E \<and> (?rs \<noteq> [] \<longrightarrow> 0 < n)"
    by (simp only: expected_calls_ab) blast
  then obtain n where n0: "n \<le> length ?rs"
    and c0: "calls (send_loop up cfg template_name ?names ?rs 0 ?tv [] []) = [] @ take n ?E"
    and p0: "?rs \<noteq> [] \<longrightarrow> 0 < n"
    by blast
  from n0 have n: "n \<le> 2" by simp
  from p0 have n1: "1 \<le> n" by simp
  from c0 have c: "calls (send_loop up cfg template_name ?names ?rs 0 ?tv [] []) = take n ?E"
    by (simp only: append_Nil)
  from n n1 have "n = 1 \<or> n = 2" by arith
  with c eq have "map observe (posted (send_message up cfg (JObj ?d)))
      = take n [(JStr ''a'', [JStr ''X'', JStr ''V2'', JStr ''V3'']),
                (JStr ''b'', [JStr ''Y'', JStr ''V2'', JStr ''V3''])]"
    by (auto simp: posted_def observe_message)
  with n n1 have first: "\<exists>n. 1 \<le> n \<and> n \<le> 2 \<and> map observe (posted (send_message up cfg (JObj ?d)))
      = take n [(JStr ''a'', [JStr ''X'', JStr ''V2'', JStr ''V3'']),
                (JStr ''b'', [JStr ''Y'', JStr ''V2'', JStr ''V3''])]"
    by blast
  have second: "answers_json up \<longrightarrow>
       map observe (posted (send_message up cfg (JObj ?d)))
           = [(JStr ''a'', [JStr ''X'', JStr ''V2'', JStr ''V3'']),
              (JStr ''b'', [JStr ''Y'', JStr ''V2'', JStr ''V3''])]
           \<and> length (calls (send_message up cfg (JObj ?d))) = 2"
  proof
    assume a: "answers_json up"
    from send_loop_answers[OF a, of cfg template_name ?names ?rs 0 ?tv "[]" "[]"]
    have "calls (send_loop up cfg template_name ?names ?rs 0 ?tv [] []) = [] @ ?E"
      by (simp only: expected_calls_ab)
    then have "calls (send_loop up cfg template_name ?names ?rs 0 ?tv [] []) = ?E"
      by (simp only: append_Nil)
    with eq show "map observe (posted (send_message up cfg (JObj ?d)))
           = [(JStr ''a'', [JStr ''X'', JStr ''V2'', JStr ''V3'']),
              (JStr ''b'', [JStr ''Y'', JStr ''V2'', JStr ''V3''])]
           \<and> length (calls (send_message up cfg (JObj ?d))) = 2"
      by (simp add: posted_def observe_message)
  qed
  from first second show ?thesis by blast
qed

text \<open>
  An instance: any template name that is a non-empty string, and a provider that accepts.
\<close>

theorem send_example_two_recipients_witness:
  "truthy (JStr ''welcome'') \<and> answers_json provider_200
   \<and> map observe (posted (send_message provider_200 example_config (JObj
             [(''recipients'', JArr [JStr ''a'', JStr ''b'']),
              (''template_name'', JStr ''welcome''),
              (''template_variables'',
               JObj [(''variable1'', JStr ''X,Y''), (''variable2'', JStr ''V2''),
                     (''variable3'', JStr ''V3'')])])))
       = [(JStr ''a'', [JStr ''X'', JStr ''V2'', JStr ''V3'']),
          (JStr ''b'', [JStr ''Y'', JStr ''V2'', JStr ''V3''])]"
proof -
  have h: "truthy (JStr ''welcome'')" by simp
  from send_example_two_recipients[OF h, of provider_200 example_config] answers_json_200 h
  show ?thesis by blast
qed

text \<open>
  When the call for \<open>a\<close> raises, the same request posts the message for \<open>a\<close> and none
  for \<open>b\<close>.
\<close>

theorem send_example_two_recipients_counterexample:
  "map observe (posted (send_message provider_first_raises example_config (JObj dict_ab)))
     = [(JStr ''a'', [JStr ''X'', JStr ''V2'', JStr ''V3''])]"
  by (simp add: dict_ab_def send_message_def dict_get_def provider_first_raises_def Let_def
      posted_def observe_def field_def body_parameters_def payload_def bind_user_def
      user_key_def str_small digit_char_def)

text \<open>
  C6. The messages posted are one for each recipient, in order, up to the first whose
  upstream call raises or is answered with a body that is no JSON: there is at least one
  for a request with recipients, and one for every recipient when the provider answers
  each call. The payload posted for the recipient at position \<open>i\<close> is the object below:
  the fixed fields, \<open>to\<close> the recipient, \<open>template.name\<close> the template name of the request,
  language code \<open>en_US\<close>, one component of type \<open>body\<close>, and exactly three parameters of
  type \<open>text\<close>, the second and third being \<open>variable2\<close> and \<open>variable3\<close> of the request
  (the empty string when absent), the same for every recipient. When the caller's
  variables are all strings, so are the three texts.
\<close>

theorem send_payload_fields:
  assumes "dict_get d ''recipients'' JNull = JArr rs"
    and "truthy (dict_get d ''template_name'' JNull)"
    and "dict_get d ''template_variables'' (JObj []) = JObj tv"
    and "dict_get tv ''variable1'' (JStr '''') = JStr v1"
  shows "length (calls (send_message up cfg (JObj d))) \<le> length rs
     \<and> (rs \<noteq> [] \<longrightarrow> calls (send_message up cfg (JObj d)) \<noteq> [])
     \<and> (length (calls (send_message up cfg (JObj d))) < length rs \<longrightarrow>
          \<not> answered up (length (calls (send_message up cfg (JObj d))) - 1)
               (last (calls (send_message up cfg (JObj d)))))
     \<and> (answers_json up \<longrightarrow> length (calls (send_message up cfg (JObj d))) = length rs)
     \<and> (\<forall>i < length (calls (send_message up cfg (JObj d))).
          \<exists>p1. calls (send_message up cfg (JObj d)) ! i
          = Post WHATSAPP_API_URL
              (JObj [
                 (''messaging_product'', JStr ''whatsapp''),
                 (''recipient_type'', JStr ''individual''),
                 (''to'', rs ! i),
                 (''type'', JStr ''template''),
                 (''template'', JObj [
                    (''name'', dict_get d ''template_name'' JNull),
                    (''language'', JObj [(''code'', JStr ''en_US'')]),
                    (''components'', JArr [
                       JObj [
                         (''type'', JStr ''body''),
                         (''parameters'', JArr [
                            JObj [(''type'', JStr ''text''), (''text'', p1)],
                            JObj [(''type'', JStr ''text''),
                                  (''text'', dict_get tv ''variable2'' (JStr ''''))],
                            JObj [(''type'', JStr ''text''),
                                  (''text'', dict_get tv ''variable3'' (JStr ''''))]
                         ])
                       ]
                    ])
                 ])
               ])
              (send_headers cfg)
          \<and> ((\<forall>v \<in> snd ` set tv. \<exists>s. v = JStr s)
               \<longrightarrow> (\<exists>s1 s2 s3. p1 = JStr s1 \<and> dict_get tv ''variable2'' (JStr '''') = JStr s2
                      \<and> dict_get tv ''variable3'' (JStr '''') = JStr s3)))"
proof -
  note e = send_message_calls_exact[OF assms, of up cfg]
  have a: "answers_json up \<longrightarrow> length (calls (send_message up cfg (JObj d))) = length rs"
  proof
    assume aj: "answers_json up"
    show "length (calls (send_message up cfg (JObj d))) = length rs"
    proof (rule ccontr)
      assume "length (calls (send_message up cfg (JObj d))) \<noteq> length rs"
      with e have "length (calls (send_message up cfg (JObj d))) < length rs" by simp
      with e have "\<not> answered up (length (calls (send_message up cfg (JObj d))) - 1)
               (last (calls (send_message up cfg (JObj d))))" by simp
      with answers_json_answered[OF aj] show False by blast
    qed
  qed
  have p: "\<forall>i < length (calls (send_message up cfg (JObj d))).
          \<exists>p1. calls (send_message up cfg (JObj d)) ! i
          = Post WHATSAPP_API_URL
              (JObj [
                 (''messaging_product'', JStr ''whatsapp''),
                 (''recipient_type'', JStr ''individual''),
                 (''to'', rs ! i),
                 (''type'', JStr ''template''),
                 (''template'', JObj [
                    (''name'', dict_get d ''template_name'' JNull),
                    (''language'', JObj [(''code'', JStr ''en_US'')]),
                    (''components'', JArr [
                       JObj [
                         (''type'', JStr ''body''),
                         (''parameters'', JArr [
                            JObj [(''type'', JStr ''text''), (''text'', p1)],
                            JObj [(''type'', JStr ''text''),
                                  (''text'', dict_get tv ''variable2'' (JStr ''''))],
                            JObj [(''type'', JStr ''text''),
                                  (''text'', dict_get tv ''variable3'' (JStr ''''))]
                         ])
                       ]
                    ])
                 ])
               ])
              (send_headers cfg)
          \<and> ((\<forall>v \<in> snd ` set tv. \<exists>s. v = JStr s)
               \<longrightarrow> (\<exists>s1 s2 s3. p1 = JStr s1 \<and> dict_get tv ''variable2'' (JStr '''') = JStr s2
                      \<and> dict_get tv ''variable3'' (JStr '''') = JStr s3))"
    using send_payload_nth[OF assms] by blast
  from e a p show ?thesis by blast
qed

text \<open>
  An instance: the example request against a provider that accepts. Two messages are
  posted, and the second is the one for \<open>b\<close>.
\<close>

theorem send_payload_fields_witness:
  "dict_get dict_ab ''recipients'' JNull = JArr [JStr ''a'', JStr ''b'']
   \<and> truthy (dict_get dict_ab ''template_name'' JNull)
   \<and> dict_get dict_ab ''template_variables'' (JObj [])
       = JObj [(''variable1'', JStr ''X,Y''), (''variable2'', JStr ''V2''), (''variable3'', JStr ''V3'')]
   \<and> answers_json provider_200
   \<and> length (calls (send_message provider_200 example_config (JObj dict_ab))) = 2
   \<and> calls (send_message provider_200 example_config (JObj dict_ab)) ! 1
     = Post WHATSAPP_API_URL
         (JObj [
            (''messaging_product'', JStr ''whatsapp''),
            (''recipient_type'', JStr ''individual''),
            (''to'', JStr ''b''),
            (''type'', JStr ''template''),
            (''template'', JObj [
               (''name'', JStr ''welcome''),
               (''language'', JObj [(''code'', JStr ''en_US'')]),
               (''components'', JArr [
                  JObj [
                    (''type'', JStr ''body''),
                    (''parameters'', JArr [
                       JObj [(''type'', JStr ''text''), (''text'', JStr ''Y'')],
                       JObj [(''type'', JStr ''text''), (''text'', JStr ''V2'')],
                       JObj [(''type'', JStr ''text''), (''text'', JStr ''V3'')]
                    ])
                  ]
               ])
            ])
          ])
         (send_headers example_config)"
proof -
  let ?tv = "[(''variable1'', JStr ''X,Y''), (''variable2'', JStr ''V2''), (''variable3'', JStr ''V3'')]"
  let ?out = "send_message provider_200 example_config (JObj dict_ab)"
  have h1: "dict_get dict_ab ''recipients'' JNull = JArr [JStr ''a'', JStr ''b'']"
    by (simp add: dict_ab_def dict_get_def)
  have h2: "truthy (dict_get dict_ab ''template_name'' JNull)"
    by (simp add: dict_ab_def dict_get_def)
  have h3: "dict_get dict_ab ''template_variables'' (JObj []) = JObj ?tv"
    by (simp add: dict_ab_def dict_get_def)
  have h4: "dict_get ?tv ''variable1'' (JStr '''') = JStr ''X,Y''"
    by (simp add: dict_get_def)
  note h5 = answers_json_200
  have n: "dict_get dict_ab ''template_name'' JNull = JStr ''welcome''"
    by (simp add: dict_ab_def dict_get_def)
  have v2: "dict_get ?tv ''variable2'' (JStr '''') = JStr ''V2''"
    and v3: "dict_get ?tv ''variable3'' (JStr '''') = JStr ''V3''"
    by (simp_all add: dict_get_def)
  note T = send_payload_fields[OF h1 h2 h3 h4, of provider_200 example_config]
  from T h5 have len: "length (calls ?out) = 2" by simp
  then have i: "1 < length (calls ?out)" by simp
  from T i obtain p1 where c: "calls ?out ! 1
     = Post WHATSAPP_API_URL
         (JObj [
            (''messaging_product'', JStr ''whatsapp''),
            (''recipient_type'', JStr ''individual''),
            (''to'', [JStr ''a'', JStr ''b''] ! 1),
            (''type'', JStr ''template''),
            (''template'', JObj [
               (''name'', dict_get dict_ab ''template_name'' JNull),
               (''language'', JObj [(''code'', JStr ''en_US'')]),
               (''components'', JArr [
                  JObj [
                    (''type'', JStr ''body''),
                    (''parameters'', JArr [
                       JObj [(''type'', JStr ''text''), (''text'', p1)],
                       JObj [(''type'', JStr ''text''),
                             (''text'', dict_get ?tv ''variable2'' (JStr ''''))],
                       JObj [(''type'', JStr ''text''),
                             (''text'', dict_get ?tv ''variable3'' (JStr ''''))]
                    ])
                  ]
               ])
            ])
          ])
         (send_headers example_config)"
    by blast
  have "calls ?out ! 1 = Post WHATSAPP_API_URL
          (message (JStr ''b'') (JStr ''welcome'') (JStr ''Y'') (JStr ''V2'') (JStr ''V3''))
          (send_headers example_config)"
    by (simp add: eval_ab)
  with c have p1: "p1 = JStr ''Y''" by (simp add: message_def)
  from c have "calls ?out ! 1
     = Post WHATSAPP_API_URL
         (JObj [
            (''messaging_product'', JStr ''whatsapp''),
            (''recipient_type'', JStr ''individual''),
            (''to'', JStr ''b''),
            (''type'', JStr ''template''),
            (''template'', JObj [
               (''name'', JStr ''welcome''),
               (''language'', JObj [(''code'', JStr ''en_US'')]),
               (''components'', JArr [
                  JObj [
                    (''type'', JStr ''body''),
                    (''parameters'', JArr [
                       JObj [(''type'', JStr ''text''), (''text'', JStr ''Y'')],
                       JObj [(''type'', JStr ''text''), (''text'', JStr ''V2'')],
                       JObj [(''type'', JStr ''text''), (''text'', JStr ''V3'')]
                    ])
                  ]
               ])
            ])
          ])
         (send_headers example_config)"
    unfolding n v2 v3 p1 by simp
  with h1 h2 h3 h5 len show ?thesis by blast
qed

section \<open>The claims about the analytics endpoints\<close>

lemma all_in_obj_missing:
  "k \<in> set ks \<Longrightarrow> map_of d k = None \<Longrightarrow> all_in ks (JObj d) = Inr False"
proof (induction ks)
  case Nil
  then show ?case by simp
next
  case (Cons a ks)
  have none: "map_of d k = None \<Longrightarrow> k \<notin> set (map fst d)"
    by (simp add: map_of_eq_None_iff)
  show ?case
  proof (cases "a \<in> set (map fst d)")
    case False
    then show ?thesis by simp
  next
    case True
    with Cons.prems none have "k \<noteq> a" by auto
    with Cons.prems have "k \<in> set ks" by simp
    from Cons.IH[OF this Cons.prems(2)] True \<open>k \<in> set ks\<close> show ?thesis by auto
  qed
qed

lemma all_in_obj_present:
  "\<forall>k \<in> set ks. map_of d k \<noteq> None \<Longrightarrow> all_in ks (JObj d) = Inr True"
proof (induction ks)
  case Nil
  then show ?case by simp
next
  case (Cons a ks)
  from Cons.prems obtain v where "map_of d a = Some v" by auto
  then have "(a, v) \<in> set d" by (rule map_of_SomeD)
  then have "a \<in> fst ` set d" by force
  with Cons show ?case by simp
qed

lemma fromiso_example:
  "fromisoformat ''2023-12-01T00:00:00''
     = Inr \<lparr>year = 2023, month = 12, day = 1, hour = 0, minute = 0, second = 0\<rparr>"
  by (simp add: fromisoformat_def date_shape_def time_shape_def all_digits_def is_digit_def
      digits_val_def digit_val_def days_in_month_def is_leap_def Let_def)

lemma timestamp_example:
  "timestamp off \<lparr>year = 2023, month = 12, day = 1, hour = 0, minute = 0, second = 0\<rparr>
     = 1701388800 - off"
  by (simp add: timestamp_def ymd2ord_def days_before_year_def days_before_month_def is_leap_def)

lemma fromtimestamp_example:
  "fromtimestamp off (1701388800 - off)
     = \<lparr>year = 2023, month = 12, day = 1, hour = 0, minute = 0, second = 0\<rparr>"
  by (simp add: fromtimestamp_def ord2ymd_def Let_def)

lemma reference_example:
  "epoch_seconds_reference \<lparr>year = 2023, month = 12, day = 1, hour = 0, minute = 0, second = 0\<rparr>
     = 1701388800"
  by (simp add: epoch_seconds_reference_def days_in_year_def days_in_month_def is_leap_def
      upt_rec)

lemma str_of_int_example: "str_of_int 1701388800 = ''1701388800''"
  by (simp add: str_of_int_def str_small str_big digit_char_def)

lemma iso_example_config:
  "iso_to_unix example_config (JStr ''2023-12-01T00:00:00'') = Inr 1701388800"
proof -
  have "iso_to_unix example_config (JStr ''2023-12-01T00:00:00'')
      = Inr (timestamp (utc_offset example_config)
          \<lparr>year = 2023, month = 12, day = 1, hour = 0, minute = 0, second = 0\<rparr>)"
    by (simp only: iso_to_unix.simps fromiso_example sum.case)
  then show ?thesis
    by (simp only: timestamp_example) (simp add: example_config_def)
qed

lemma relay_provider_data:
  "relay provider_data c
     = \<lparr>calls = [c], printed = [],
        result = Inr (JObj [(''data'', JArr [JObj [(''name'', JStr ''welcome'')]])], 200)\<rparr>"
  by (simp add: relay_def provider_data_def ok_def)

text \<open>
  C8. Each of the three analytics endpoints answers a request body (a JSON object) that
  lacks \<open>start_date\<close> or \<open>end_date\<close> with status 400, and issues no upstream call.
\<close>

theorem analytics_missing_dates:
  assumes "map_of d ''start_date'' = None \<or> map_of d ''end_date'' = None"
  shows "get_conversation_analytics up cfg (JObj d)
         = \<lparr>calls = [], printed = [],
            result = Inr (JObj [(''error'', JStr
              ''Start date and end date are required in ISO format in the request body.'')],
              400)\<rparr>
       \<and> get_template_analytics up cfg (JObj d)
         = \<lparr>calls = [], printed = [],
            result = Inr (JObj [(''error'', JStr
              ''Start date, end date, and template IDs are required in the request body.'')],
              400)\<rparr>
       \<and> get_messaging_analytics up cfg (JObj d)
         = \<lparr>calls = [], printed = [],
            result = Inr (JObj [(''error'', JStr
              ''Start date and end date are required in ISO format in the request body.'')],
              400)\<rparr>"
proof -
  have m: "k \<in> set ks \<Longrightarrow> map_of d k = None \<Longrightarrow> all_in ks (JObj d) = Inr False" for k ks
    by (rule all_in_obj_missing)
  from assms have a2: "all_in [''start_date'', ''end_date''] (JObj d) = Inr False"
  proof
    assume "map_of d ''start_date'' = None"
    with m[of "''start_date''" "[''start_date'', ''end_date'']"] show ?thesis
      by (simp del: all_in.simps)
  next
    assume "map_of d ''end_date'' = None"
    with m[of "''end_date''" "[''start_date'', ''end_date'']"] show ?thesis
      by (simp del: all_in.simps)
  qed
  from assms have a3: "all_in [''start_date'', ''end_date'', ''template_ids''] (JObj d) = Inr False"
  proof
    assume "map_of d ''start_date'' = None"
    with m[of "''start_date''" "[''start_date'', ''end_date'', ''template_ids'']"] show ?thesis
      by (simp del: all_in.simps)
  next
    assume "map_of d ''end_date'' = None"
    with m[of "''end_date''" "[''start_date'', ''end_date'', ''template_ids'']"] show ?thesis
      by (simp del: all_in.simps)
  qed
  show ?thesis
    by (simp add: get_conversation_analytics_def get_template_analytics_def
        get_messaging_analytics_def a2 a3 attempt_def bad_request_def del: all_in.simps)
qed

text \<open>
  An instance: a body with a start date only.
\<close>

theorem analytics_missing_dates_witness:
  "(map_of [(''start_date'', JStr ''2023-12-01T00:00:00'')] ''start_date'' = None
      \<or> map_of [(''start_date'', JStr ''2023-12-01T00:00:00'')] ''end_date'' = None)
   \<and> calls (get_conversation_analytics provider_200 example_config
        (JObj [(''start_date'', JStr ''2023-12-01T00:00:00'')])) = []
   \<and> result (get_template_analytics provider_200 example_config
        (JObj [(''start_date'', JStr ''2023-12-01T00:00:00'')]))
       = Inr (JObj [(''error'',
           JStr ''Start date, end date, and template IDs are required in the request body.'')],
              400)
   \<and> calls (get_messaging_analytics provider_200 example_config
        (JObj [(''start_date'', JStr ''2023-12-01T00:00:00'')])) = []"
proof -
  let ?d = "[(''start_date'', JStr ''2023-12-01T00:00:00'')]"
  have h: "map_of ?d ''start_date'' = None \<or> map_of ?d ''end_date'' = None" by simp
  from analytics_missing_dates[OF h, of provider_200 example_config] h show ?thesis
    by simp
qed

text \<open>
  C10. With both dates readable and no \<open>granularity\<close> in the body,
  \<open>/conversation_analytics\<close> goes on to its upstream call and asks for the granularity
  \<open>MONTHLY\<close>. \<open>/messaging_analytics\<close> and \<open>/template_analytics\<close> put no default in its
  place: the first renders Python's \<open>None\<close> into the query, the second passes \<open>None\<close> as the
  parameter.
\<close>

theorem granularity_default:
  assumes "map_of d ''start_date'' = Some sd" and "map_of d ''end_date'' = Some ed"
    and "iso_to_unix cfg sd = Inr a" and "iso_to_unix cfg ed = Inr b"
    and "map_of d ''granularity'' = None"
  shows "get_conversation_analytics up cfg (JObj d)
      = relay up (Get graph_url []
          [(''fields'', JStr (''conversation_analytics.start('' @ str_of_int a
              @ '').end('' @ str_of_int b
              @ '').granularity(MONTHLY).phone_numbers([]).dimensions(['' @ [CHR 0x27]
              @ ''CONVERSATION_CATEGORY'' @ [CHR 0x27] @ '','' @ [CHR 0x27]
              @ ''CONVERSATION_TYPE'' @ [CHR 0x27] @ '','' @ [CHR 0x27] @ ''COUNTRY''
              @ [CHR 0x27] @ '','' @ [CHR 0x27] @ ''PHONE'' @ [CHR 0x27] @ ''])'')),
           (''access_token'', json_of_opt (ACCESS_TOKEN cfg))])
    \<and> get_messaging_analytics up cfg (JObj d)
      = relay up (Get graph_url []
          [(''fields'', JStr (''analytics.start('' @ str_of_int a
              @ '').end('' @ str_of_int b @ '').granularity(None)'')),
           (''access_token'', json_of_opt (ACCESS_TOKEN cfg))])
    \<and> (map_of d ''template_ids'' = Some ids \<longrightarrow>
        get_template_analytics up cfg (JObj d)
           = relay up (Get (graph_url @ ''/template_analytics'')
               [(''Authorization'', ''Bearer '' @ str_of_opt (ACCESS_TOKEN cfg))]
               [(''start'', JNum a), (''end'', JNum b), (''granularity'', JNull),
                (''metric_types'', JStr (''['' @ [CHR 0x27] @ ''SENT'' @ [CHR 0x27] @ '',''
                   @ [CHR 0x27] @ ''DELIVERED'' @ [CHR 0x27] @ '','' @ [CHR 0x27] @ ''READ''
                   @ [CHR 0x27] @ '','' @ [CHR 0x27] @ ''CLICKED'' @ [CHR 0x27] @ '']'')),
                (''template_ids'', ids)]))"
proof -
  from assms(1,2) have p2: "all_in [''start_date'', ''end_date''] (JObj d) = Inr True"
    by (intro all_in_obj_present) simp
  have conv: "get_conversation_analytics up cfg (JObj d)
      = relay up (Get graph_url []
          [(''fields'', JStr (''conversation_analytics.start('' @ str_of_int a
              @ '').end('' @ str_of_int b
              @ '').granularity(MONTHLY).phone_numbers([]).dimensions(['' @ [CHR 0x27]
              @ ''CONVERSATION_CATEGORY'' @ [CHR 0x27] @ '','' @ [CHR 0x27]
              @ ''CONVERSATION_TYPE'' @ [CHR 0x27] @ '','' @ [CHR 0x27] @ ''COUNTRY''
              @ [CHR 0x27] @ '','' @ [CHR 0x27] @ ''PHONE'' @ [CHR 0x27] @ ''])'')),
           (''access_token'', json_of_opt (ACCESS_TOKEN cfg))])"
    using assms
    by (simp add: get_conversation_analytics_def p2 attempt_def dict_get_def graph_url_def
        del: all_in.simps)
  have msg: "get_messaging_analytics up cfg (JObj d)
      = relay up (Get graph_url []
          [(''fields'', JStr (''analytics.start('' @ str_of_int a
              @ '').end('' @ str_of_int b @ '').granularity(None)'')),
           (''access_token'', json_of_opt (ACCESS_TOKEN cfg))])"
    using assms
    by (simp add: get_messaging_analytics_def p2 attempt_def dict_get_def graph_url_def
        del: all_in.simps)
  have tmpl: "map_of d ''template_ids'' = Some ids \<longrightarrow>
        get_template_analytics up cfg (JObj d)
           = relay up (Get (graph_url @ ''/template_analytics'')
               [(''Authorization'', ''Bearer '' @ str_of_opt (ACCESS_TOKEN cfg))]
               [(''start'', JNum a), (''end'', JNum b), (''granularity'', JNull),
                (''metric_types'', JStr (''['' @ [CHR 0x27] @ ''SENT'' @ [CHR 0x27] @ '',''
                   @ [CHR 0x27] @ ''DELIVERED'' @ [CHR 0x27] @ '','' @ [CHR 0x27] @ ''READ''
                   @ [CHR 0x27] @ '','' @ [CHR 0x27] @ ''CLICKED'' @ [CHR 0x27] @ '']'')),
                (''template_ids'', ids)])"
  proof
    assume t: "map_of d ''template_ids'' = Some ids"
    with assms(1,2)
    have p3: "all_in [''start_date'', ''end_date'', ''template_ids''] (JObj d) = Inr True"
      by (intro all_in_obj_present) simp
    from assms t show "get_template_analytics up cfg (JObj d)
           = relay up (Get (graph_url @ ''/template_analytics'')
               [(''Authorization'', ''Bearer '' @ str_of_opt (ACCESS_TOKEN cfg))]
               [(''start'', JNum a), (''end'', JNum b), (''granularity'', JNull),
                (''metric_types'', JStr (''['' @ [CHR 0x27] @ ''SENT'' @ [CHR 0x27] @ '',''
                   @ [CHR 0x27] @ ''DELIVERED'' @ [CHR 0x27] @ '','' @ [CHR 0x27] @ ''READ''
                   @ [CHR 0x27] @ '','' @ [CHR 0x27] @ ''CLICKED'' @ [CHR 0x27] @ '']'')),
                (''template_ids'', ids)])"
      by (simp add: get_template_analytics_def p3 attempt_def dict_get_def graph_url_def
          del: all_in.simps)
  qed
  from conv msg tmpl show ?thesis by blast
qed

text \<open>
  An instance: both dates are 2023-12-01T00:00:00 and the server runs on UTC.
\<close>

theorem granularity_default_witness:
  "map_of dict_dates ''start_date'' = Some (JStr ''2023-12-01T00:00:00'')
   \<and> map_of dict_dates ''end_date'' = Some (JStr ''2023-12-01T00:00:00'')
   \<and> iso_to_unix example_config (JStr ''2023-12-01T00:00:00'') = Inr 1701388800
   \<and> map_of dict_dates ''granularity'' = None
   \<and> get_conversation_analytics provider_data example_config (JObj dict_dates)
      = \<lparr>calls = [Get graph_url []
          [(''fields'', JStr (''conversation_analytics.start(1701388800).end(1701388800)''
              @ ''.granularity(MONTHLY).phone_numbers([]).dimensions(['' @ [CHR 0x27]
              @ ''CONVERSATION_CATEGORY'' @ [CHR 0x27] @ '','' @ [CHR 0x27]
              @ ''CONVERSATION_TYPE'' @ [CHR 0x27] @ '','' @ [CHR 0x27] @ ''COUNTRY''
              @ [CHR 0x27] @ '','' @ [CHR 0x27] @ ''PHONE'' @ [CHR 0x27] @ ''])'')),
           (''access_token'', JStr ''token'')]],
         printed = [],
         result = Inr (JObj [(''data'', JArr [JObj [(''name'', JStr ''welcome'')]])], 200)\<rparr>
   \<and> calls (get_messaging_analytics provider_data example_config (JObj dict_dates))
      = [Get graph_url []
          [(''fields'', JStr ''analytics.start(1701388800).end(1701388800).granularity(None)''),
           (''access_token'', JStr ''token'')]]"
proof -
  have h1: "map_of dict_dates ''start_date'' = Some (JStr ''2023-12-01T00:00:00'')"
    and h2: "map_of dict_dates ''end_date'' = Some (JStr ''2023-12-01T00:00:00'')"
    and h5: "map_of dict_dates ''granularity'' = None"
    by (simp_all add: dict_dates_def)
  note h3 = iso_example_config
  have t: "json_of_opt (ACCESS_TOKEN example_config) = JStr ''token''"
    by (simp add: example_config_def)
  from granularity_default[OF h1 h2 h3 h3 h5, of provider_data]
  have "get_conversation_analytics provider_data example_config (JObj dict_dates)
      = \<lparr>calls = [Get graph_url []
          [(''fields'', JStr (''conversation_analytics.start(1701388800).end(1701388800)''
              @ ''.granularity(MONTHLY).phone_numbers([]).dimensions(['' @ [CHR 0x27]
              @ ''CONVERSATION_CATEGORY'' @ [CHR 0x27] @ '','' @ [CHR 0x27]
              @ ''CONVERSATION_TYPE'' @ [CHR 0x27] @ '','' @ [CHR 0x27] @ ''COUNTRY''
              @ [CHR 0x27] @ '','' @ [CHR 0x27] @ ''PHONE'' @ [CHR 0x27] @ ''])'')),
           (''access_token'', JStr ''token'')]],
         printed = [],
         result = Inr (JObj [(''data'', JArr [JObj [(''name'', JStr ''welcome'')]])], 200)\<rparr>"
    and "calls (get_messaging_analytics provider_data example_config (JObj dict_dates))
      = [Get graph_url []
          [(''fields'', JStr ''analytics.start(1701388800).end(1701388800).granularity(None)''),
           (''access_token'', JStr ''token'')]]"
    by (simp_all add: relay_provider_data str_of_int_example t)
  with h1 h2 h3 h5 show ?thesis by blast
qed

section \<open>The claim about timestamps\<close>

text \<open>
  C7. Whatever the offset of the server's zone, \<open>iso_to_unix\<close> maps
  \<open>2023-12-01T00:00:00\<close> to 1701388800 less that offset; this is the value the calendar
  gives when counted out directly; and converting it back to local time gives
  2023-12-01 00:00:00 again.
\<close>

theorem iso_to_unix_example:
  "iso_to_unix cfg (JStr ''2023-12-01T00:00:00'') = Inr (1701388800 - utc_offset cfg)
   \<and> 1701388800 - utc_offset cfg
       = epoch_seconds_reference
           \<lparr>year = 2023, month = 12, day = 1, hour = 0, minute = 0, second = 0\<rparr>
         - utc_offset cfg
   \<and> fromtimestamp (utc_offset cfg) (1701388800 - utc_offset cfg)
       = \<lparr>year = 2023, month = 12, day = 1, hour = 0, minute = 0, second = 0\<rparr>"
proof -
  have "iso_to_unix cfg (JStr ''2023-12-01T00:00:00'')
      = Inr (timestamp (utc_offset cfg)
          \<lparr>year = 2023, month = 12, day = 1, hour = 0, minute = 0, second = 0\<rparr>)"
    by (simp only: iso_to_unix.simps fromiso_example sum.case)
  then have "iso_to_unix cfg (JStr ''2023-12-01T00:00:00'') = Inr (1701388800 - utc_offset cfg)"
    by (simp only: timestamp_example)
  then show ?thesis
    by (simp only: fromtimestamp_example reference_example simp_thms)
qed

text \<open>
  An instance: a server on UTC.
\<close>

theorem iso_to_unix_example_witness:
  "iso_to_unix example_config (JStr ''2023-12-01T00:00:00'') = Inr 1701388800
   \<and> fromtimestamp 0 1701388800
       = \<lparr>year = 2023, month = 12, day = 1, hour = 0, minute = 0, second = 0\<rparr>"
  using iso_to_unix_example[of example_config] by (simp add: example_config_def)

section \<open>The claim about the GET endpoints\<close>

lemma make_request_200:
  "\<forall>c. up 0 c = Inr r \<Longrightarrow> status_code r = 200 \<Longrightarrow> body_json r = Inr j
   \<Longrightarrow> result (jsonify_result (make_request up url hs ps)) = Inr (j, 200)"
  by (simp add: make_request_def jsonify_result_def)

lemma make_request_other:
  "\<forall>c. up 0 c = Inr r \<Longrightarrow> status_code r \<noteq> 200
   \<Longrightarrow> result (jsonify_result (make_request up url hs ps)) = Inr (status_envelope (status_code r), 200)"
  by (simp add: make_request_def jsonify_result_def status_envelope_def)

lemma make_request_calls:
  "calls (jsonify_result (make_request up url hs ps)) = [Get url hs ps]"
  by (simp add: make_request_def jsonify_result_def split: sum.splits)

text \<open>
  C5, as amended. Each of the five GET endpoints issues one upstream call. An upstream
  response with status 200 and a JSON body is returned unchanged, with status 200. Any
  other upstream status is answered with status 200 as well, and with the error dict
  \<open>{"error": "Request failed with status code: N"}\<close> in place of the upstream body: the
  upstream status \<open>N\<close> is quoted in the text and is not the status of the answer.
\<close>

theorem get_endpoints_relay:
  assumes "\<forall>c. up 0 c = Inr r"
  shows "\<forall>endpoint \<in> set get_endpoints.
           length (calls (endpoint up cfg)) = 1
         \<and> (status_code r = 200 \<and> body_json r = Inr j
              \<longrightarrow> result (endpoint up cfg) = Inr (j, 200))
         \<and> (status_code r \<noteq> 200
              \<longrightarrow> result (endpoint up cfg) = Inr (status_envelope (status_code r), 200))"
  using assms
  by (simp add: get_endpoints_def approved_template_def rejected_templates_def
      approved_template_contents_def rejected_template_contents_def phone_number_status_def
      make_request_calls make_request_200 make_request_other)

text \<open>
  An instance: \<open>/approved_templates\<close> against a provider that lists one template.
\<close>

theorem get_endpoints_relay_witness:
  "(\<forall>c. provider_data 0 c
          = Inr \<lparr>status_code = 200, body_text = ''data'',
                 body_json = Inr (JObj [(''data'', JArr [JObj [(''name'', JStr ''welcome'')]])])\<rparr>)
   \<and> approved_template \<in> set get_endpoints
   \<and> result (approved_template provider_data example_config)
       = Inr (JObj [(''data'', JArr [JObj [(''name'', JStr ''welcome'')]])], 200)"
proof -
  let ?r = "\<lparr>status_code = 200, body_text = ''data'',
             body_json = Inr (JObj [(''data'', JArr [JObj [(''name'', JStr ''welcome'')]])])\<rparr>"
  have h: "\<forall>c. provider_data 0 c = Inr ?r" by (simp add: provider_data_def)
  have m: "approved_template \<in> set get_endpoints" by (simp add: get_endpoints_def)
  from get_endpoints_relay[of provider_data ?r example_config
      "JObj [(''data'', JArr [JObj [(''name'', JStr ''welcome'')]])]"] h m
  have "result (approved_template provider_data example_config)
       = Inr (JObj [(''data'', JArr [JObj [(''name'', JStr ''welcome'')]])], 200)"
    by auto
  with h m show ?thesis by blast
qed

text \<open>
  Against a provider that answers with status 500 and a JSON body, \<open>/approved_templates\<close>
  answers with status 200 and a body of its own.
\<close>

theorem get_endpoints_status_counterexample:
  "result (approved_template provider_500 example_config)
     = Inr (JObj [(''error'', JStr ''Request failed with status code: 500'')], 200)"
  by (simp add: approved_template_def make_request_def jsonify_result_def provider_500_def
      str_small str_big digit_char_def)

end
